theory Spec2Isabelle
  imports Complex_Main "HOL-Library.Word"
begin

section \<open>JavaScript values used by the weather dashboard\<close>

subsection \<open>Strings\<close>

text \<open>
  A JavaScript string is a sequence of 16-bit code units. ASCII literals of the source
  are written \<open>js ''...''\<close>; a character outside ASCII is written as its code unit
  (\<open>0xB0\<close> is the degree sign, \<open>0xED\<close> is i-acute, and so on).
\<close>

type_synonym jsstring = "16 word list"

definition js :: "string \<Rightarrow> jsstring" where
  "js s = map of_char s"

text \<open>
  \<open>String.prototype.trim\<close> strips the code units that ECMAScript calls WhiteSpace or
  LineTerminator from both ends.
\<close>

definition is_js_space :: "16 word \<Rightarrow> bool" where
  "is_js_space c \<longleftrightarrow>
     c = 0x09 \<or> c = 0x0A \<or> c = 0x0B \<or> c = 0x0C \<or> c = 0x0D \<or> c = 0x20 \<or> c = 0xA0 \<or>
     c = 0x1680 \<or> (0x2000 \<le> c \<and> c \<le> 0x200A) \<or> c = 0x2028 \<or> c = 0x2029 \<or>
     c = 0x202F \<or> c = 0x205F \<or> c = 0x3000 \<or> c = 0xFEFF"

definition trim :: "jsstring \<Rightarrow> jsstring" where
  "trim s = rev (dropWhile is_js_space (rev (dropWhile is_js_space s)))"

text \<open>Decimal digits of a natural number, most significant first; \<open>48\<close> is the digit zero.\<close>

fun dec :: "nat \<Rightarrow> jsstring" where
  "dec n = (if n < 10 then [of_nat (48 + n)] else dec (n div 10) @ [of_nat (48 + n mod 10)])"

declare dec.simps [simp del]

definition pad2 :: "nat \<Rightarrow> jsstring" where
  "pad2 n = (if n < 10 then js ''0'' @ dec n else dec n)"

subsection \<open>Numbers\<close>

text \<open>
  A JavaScript number is NaN, an infinity, or a finite binary64 value; a finite value is
  represented by the real number it denotes (the sign of zero is not tracked). The result
  of an arithmetic operation is the exact result rounded to binary64; the rounding is a
  function of the host, \<open>fl\<close>, which the embedding takes from the platform instead of
  fixing it. The platform also supplies the parts of the standard library whose output
  depends on binary64 digits or on locale data:
  \<^item> \<open>num_text\<close>: Number-to-string conversion of a finite value that is not an integer
    of magnitude up to \<open>2^53\<close> (shortest round-trip digits, exponent notation);
  \<^item> \<open>weekday_time_text\<close>: the es-ES rendering of weekday, hour and minute of a valid
    time value;
  \<^item> \<open>local_offset\<close>: the offset in milliseconds of the host's time zone at a time value.
\<close>

datatype jsnum = NaN | PosInf | NegInf | Fin real

record platform =
  fl :: "real \<Rightarrow> jsnum"
  num_text :: "real \<Rightarrow> jsstring"
  weekday_time_text :: "int \<Rightarrow> jsstring"
  local_offset :: "int \<Rightarrow> int"

fun js_add :: "platform \<Rightarrow> jsnum \<Rightarrow> jsnum \<Rightarrow> jsnum" where
  "js_add P NaN _ = NaN"
| "js_add P _ NaN = NaN"
| "js_add P (Fin x) (Fin y) = fl P (x + y)"
| "js_add P PosInf NegInf = NaN"
| "js_add P NegInf PosInf = NaN"
| "js_add P PosInf _ = PosInf"
| "js_add P NegInf _ = NegInf"
| "js_add P _ PosInf = PosInf"
| "js_add P _ NegInf = NegInf"

fun js_mul :: "platform \<Rightarrow> jsnum \<Rightarrow> jsnum \<Rightarrow> jsnum" where
  "js_mul P NaN _ = NaN"
| "js_mul P _ NaN = NaN"
| "js_mul P (Fin x) (Fin y) = fl P (x * y)"
| "js_mul P PosInf (Fin y) = (if y = 0 then NaN else if 0 < y then PosInf else NegInf)"
| "js_mul P NegInf (Fin y) = (if y = 0 then NaN else if 0 < y then NegInf else PosInf)"
| "js_mul P (Fin x) PosInf = (if x = 0 then NaN else if 0 < x then PosInf else NegInf)"
| "js_mul P (Fin x) NegInf = (if x = 0 then NaN else if 0 < x then NegInf else PosInf)"
| "js_mul P PosInf PosInf = PosInf"
| "js_mul P NegInf NegInf = PosInf"
| "js_mul P PosInf NegInf = NegInf"
| "js_mul P NegInf PosInf = NegInf"

text \<open>Division; a zero divisor is taken as positive zero.\<close>

fun js_div :: "platform \<Rightarrow> jsnum \<Rightarrow> jsnum \<Rightarrow> jsnum" where
  "js_div P NaN _ = NaN"
| "js_div P _ NaN = NaN"
| "js_div P (Fin x) (Fin y) =
     (if y = 0 then (if x = 0 then NaN else if 0 < x then PosInf else NegInf)
      else fl P (x / y))"
| "js_div P PosInf (Fin y) = (if 0 \<le> y then PosInf else NegInf)"
| "js_div P NegInf (Fin y) = (if 0 \<le> y then NegInf else PosInf)"
| "js_div P (Fin x) _ = Fin 0"
| "js_div P _ _ = NaN"

text \<open>
  \<open>Math.round\<close>: the integer closest to the argument, the larger one on a tie. It is
  defined on the exact value, so no rounding to binary64 takes place.
\<close>

fun Math_round :: "jsnum \<Rightarrow> jsnum" where
  "Math_round (Fin x) = Fin (of_int \<lfloor>x + 1 / 2\<rfloor>)"
| "Math_round n = n"

text \<open>
  Number-to-string conversion, as a template literal applies it. An integer of magnitude
  up to \<open>2^53\<close> is printed with all its digits; any other finite value is printed with
  the shortest digits that read back as the same binary64 value, which the platform
  supplies.
\<close>

fun ToString :: "platform \<Rightarrow> jsnum \<Rightarrow> jsstring" where
  "ToString P NaN = js ''NaN''"
| "ToString P PosInf = js ''Infinity''"
| "ToString P NegInf = js ''-Infinity''"
| "ToString P (Fin x) =
     (if of_int \<lfloor>x\<rfloor> = x \<and> \<bar>x\<bar> \<le> 2 ^ 53
      then (if x < 0 then js ''-'' else []) @ dec (nat \<lfloor>\<bar>x\<bar>\<rfloor>)
      else num_text P x)"

datatype js_error = RangeError | TypeError | SyntaxError

text \<open>
  \<open>Number.prototype.toFixed(f)\<close>: a RangeError when \<open>f\<close> is above 100; the default
  conversion for a value that is not finite or whose magnitude reaches \<open>10^21\<close>; otherwise
  the integer \<open>n\<close> closest to \<open>|x| * 10^f\<close> (the larger one on a tie), printed with the
  point before its last \<open>f\<close> digits and the sign of \<open>x\<close> in front.
\<close>

definition fixed_digits :: "nat \<Rightarrow> nat \<Rightarrow> jsstring" where
  "fixed_digits f n =
     (let m = dec n;
          m' = (if f \<noteq> 0 \<and> length m \<le> f then replicate (f + 1 - length m) 0x30 @ m else m);
          k = length m'
      in if f \<noteq> 0 then take (k - f) m' @ js ''.'' @ drop (k - f) m' else m')"

definition toFixed :: "platform \<Rightarrow> nat \<Rightarrow> jsnum \<Rightarrow> js_error + jsstring" where
  "toFixed P f v =
     (if 100 < f then Inl RangeError
      else case v of
        Fin x \<Rightarrow>
          (let s = (if x < 0 then js ''-'' else []);
               a = \<bar>x\<bar>
           in if 10 ^ 21 \<le> a then Inr (s @ ToString P (Fin a))
              else Inr (s @ fixed_digits f (nat \<lfloor>a * 10 ^ f + 1 / 2\<rfloor>)))
      | _ \<Rightarrow> Inr (ToString P v))"

text \<open>
  The values a formatter can be handed. \<open>typeof v\<close> is \<open>'number'\<close> exactly for
  \<open>Number\<close>, NaN and the infinities included.
\<close>

datatype jsval = Undefined | Null | Boolean bool | Number jsnum | String jsstring | Object

fun typeof :: "jsval \<Rightarrow> jsstring" where
  "typeof Undefined = js ''undefined''"
| "typeof Null = js ''object''"
| "typeof (Boolean _) = js ''boolean''"
| "typeof (Number _) = js ''number''"
| "typeof (String _) = js ''string''"
| "typeof Object = js ''object''"

subsection \<open>Dates and their rendering\<close>

text \<open>
  \<open>new Date(v)\<close> holds a time value in milliseconds, or is invalid (\<open>None\<close>): the
  argument is clipped, so anything not finite or beyond \<open>8.64 * 10^15\<close> in magnitude is
  invalid and a fraction is cut off towards zero.
\<close>

definition new_Date :: "jsnum \<Rightarrow> int option" where
  "new_Date v =
     (case v of
        Fin x \<Rightarrow> (if 8640000000000000 < \<bar>x\<bar> then None
                  else Some (if 0 \<le> x then \<lfloor>x\<rfloor> else \<lceil>x\<rceil>))
      | _ \<Rightarrow> None)"

datatype zone = UTC | HostZone

definition zoned :: "platform \<Rightarrow> zone \<Rightarrow> int \<Rightarrow> int" where
  "zoned P tz t = (case tz of UTC \<Rightarrow> t | HostZone \<Rightarrow> t + local_offset P t)"

definition hour_of :: "int \<Rightarrow> nat" where
  "hour_of t = nat ((t div 3600000) mod 24)"

definition minute_of :: "int \<Rightarrow> nat" where
  "minute_of t = nat ((t div 60000) mod 60)"

definition second_of :: "int \<Rightarrow> nat" where
  "second_of t = nat ((t div 1000) mod 60)"

text \<open>
  \<open>date.toLocaleTimeString('es-ES', {hour: '2-digit', minute: '2-digit', hour12: false,
  timeZone})\<close>: two-digit hour (0 to 23), a colon, two-digit minute; an invalid date
  gives the text \<open>Invalid Date\<close> and no exception.
\<close>

definition toLocaleTimeString :: "platform \<Rightarrow> zone \<Rightarrow> int option \<Rightarrow> jsstring" where
  "toLocaleTimeString P tz d =
     (case d of
        None \<Rightarrow> js ''Invalid Date''
      | Some t \<Rightarrow> pad2 (hour_of (zoned P tz t)) @ js '':'' @ pad2 (minute_of (zoned P tz t)))"

text \<open>
  \<open>new Intl.DateTimeFormat('es-ES', {weekday: 'short', hour: '2-digit', minute:
  '2-digit', hour12: false, timeZone}).format(date)\<close>: a RangeError for an invalid date.
\<close>

definition format_weekday_time :: "platform \<Rightarrow> zone \<Rightarrow> int option \<Rightarrow> js_error + jsstring" where
  "format_weekday_time P tz d =
     (case d of
        None \<Rightarrow> Inl RangeError
      | Some t \<Rightarrow> Inr (weekday_time_text P (zoned P tz t)))"

text \<open>
  \<open>new Intl.DateTimeFormat('es-ES', {hour: '2-digit', minute: '2-digit', second:
  '2-digit'}).format(date)\<close>, in the host's zone.
\<close>

definition format_hms :: "platform \<Rightarrow> int option \<Rightarrow> js_error + jsstring" where
  "format_hms P d =
     (case d of
        None \<Rightarrow> Inl RangeError
      | Some t \<Rightarrow>
          (let l = zoned P HostZone t
           in Inr (pad2 (hour_of l) @ js '':'' @ pad2 (minute_of l) @ js '':'' @ pad2 (second_of l))))"

section \<open>Formatter utilities\<close>

datatype unit_system = Metric | Imperial

fun TEMPERATURE_UNIT :: "unit_system \<Rightarrow> jsstring" where
  "TEMPERATURE_UNIT Metric = [0xB0] @ js ''C''"
| "TEMPERATURE_UNIT Imperial = [0xB0] @ js ''F''"

fun WIND_UNIT :: "unit_system \<Rightarrow> jsstring" where
  "WIND_UNIT Metric = js ''m/s''"
| "WIND_UNIT Imperial = js ''mph''"

text \<open>
  After the guard \<open>typeof value !== 'number'\<close> the value is a number; \<open>number_of\<close>
  reads it.
\<close>

fun number_of :: "jsval \<Rightarrow> jsnum" where
  "number_of (Number x) = x"
| "number_of _ = NaN"

definition formatTemperature :: "platform \<Rightarrow> jsval \<Rightarrow> unit_system \<Rightarrow> js_error + jsstring" where
  "formatTemperature P v units =
     (if typeof v \<noteq> js ''number'' then Inr (js ''--'')
      else Inr (ToString P (Math_round (number_of v)) @ TEMPERATURE_UNIT units))"

definition formatWindSpeed :: "platform \<Rightarrow> jsval \<Rightarrow> unit_system \<Rightarrow> js_error + jsstring" where
  "formatWindSpeed P v units =
     (if typeof v \<noteq> js ''number'' then Inr (js ''--'')
      else case toFixed P 1 (number_of v) of
             Inl e \<Rightarrow> Inl e
           | Inr t \<Rightarrow> Inr (t @ js '' '' @ WIND_UNIT units))"

definition formatVisibility :: "platform \<Rightarrow> jsval \<Rightarrow> js_error + jsstring" where
  "formatVisibility P v =
     (if typeof v \<noteq> js ''number'' then Inr (js ''--'')
      else case toFixed P 1 (js_div P (number_of v) (Fin 1000)) of
             Inl e \<Rightarrow> Inl e
           | Inr t \<Rightarrow> Inr (t @ js '' km''))"

text \<open>
  \<open>formatSunEvent\<close> receives \<open>current.sys?.sunrise\<close>, a number or nothing
  (\<open>None\<close>: undefined or null), and \<open>current.timezone ?? 0\<close>, always a number.
  Nothing, NaN and zero are falsy.
\<close>

definition falsy_num :: "jsnum \<Rightarrow> bool" where
  "falsy_num x \<longleftrightarrow> x = NaN \<or> x = Fin 0"

definition formatSunEvent :: "platform \<Rightarrow> jsnum option \<Rightarrow> jsnum \<Rightarrow> jsstring" where
  "formatSunEvent P timestamp timezoneOffset =
     (case timestamp of
        None \<Rightarrow> js ''--''
      | Some ts \<Rightarrow>
          (if falsy_num ts then js ''--''
           else
             let date = new_Date (js_mul P (js_add P ts timezoneOffset) (Fin 1000))
             in toLocaleTimeString P UTC date))"

definition formatUpdatedAt :: "platform \<Rightarrow> int option \<Rightarrow> (js_error + jsstring) option" where
  "formatUpdatedAt P date =
     (case date of
        None \<Rightarrow> None
      | Some t \<Rightarrow> Some (format_hms P (Some t)))"

section \<open>Forecast projector\<close>

text \<open>
  The payloads of the two endpoints, with the fields the dashboard reads; the numeric
  fields hold numbers. A field that is read through \<open>?.\<close> or \<open>??\<close> is an option:
  these operators treat undefined and null alike, and \<open>None\<close> stands for both. The
  timestamp \<open>dt\<close> of a forecast entry is added to a number, where undefined converts
  to NaN and null to 0, so its three cases are kept apart.
\<close>

datatype operand = OpUndefined | OpNull | OpNumber jsnum

record main_block =
  temp :: "jsnum option"
  feels_like :: "jsnum option"
  humidity :: "jsnum option"
  pressure :: "jsnum option"

record forecast_entry =
  dt :: operand
  main :: "main_block option"
  pop :: "jsnum option"

record city_block =
  timezone :: "jsnum option"

record forecast =
  forecast_list :: "forecast_entry list option"
  forecast_city :: "city_block option"

record forecast_point =
  label :: jsstring
  temperature :: "jsnum option"
  point_humidity :: "jsnum option"
  precipitation :: jsnum

text \<open>The conversion that \<open>+\<close> applies to such an operand.\<close>

fun ToNumber :: "operand \<Rightarrow> jsnum" where
  "ToNumber OpUndefined = NaN"
| "ToNumber OpNull = Fin 0"
| "ToNumber (OpNumber x) = x"

text \<open>\<open>Array.prototype.map\<close> with a callback that may throw: the first exception ends it.\<close>

fun map_throwing :: "('a \<Rightarrow> js_error + 'b) \<Rightarrow> 'a list \<Rightarrow> js_error + 'b list" where
  "map_throwing f [] = Inr []"
| "map_throwing f (x # xs) =
     (case f x of
        Inl e \<Rightarrow> Inl e
      | Inr y \<Rightarrow> (case map_throwing f xs of Inl e \<Rightarrow> Inl e | Inr ys \<Rightarrow> Inr (y # ys)))"

text \<open>The object that the callback of \<open>buildForecastPoints\<close> returns for an entry.\<close>

definition make_point :: "platform \<Rightarrow> jsstring \<Rightarrow> forecast_entry \<Rightarrow> forecast_point" where
  "make_point P l item =
     \<lparr> label = l,
       temperature = (case main item of None \<Rightarrow> None | Some m \<Rightarrow> temp m),
       point_humidity = (case main item of None \<Rightarrow> None | Some m \<Rightarrow> humidity m),
       precipitation =
         Math_round (js_mul P (case pop item of None \<Rightarrow> Fin 0 | Some p \<Rightarrow> p) (Fin 100)) \<rparr>"

text \<open>The callback: the label is formatted first, and formatting an invalid date throws.\<close>

definition forecast_item :: "platform \<Rightarrow> jsnum \<Rightarrow> forecast_entry \<Rightarrow> js_error + forecast_point" where
  "forecast_item P timezoneOffset item =
     (let localDate = new_Date (js_mul P (js_add P (ToNumber (dt item)) timezoneOffset) (Fin 1000))
      in case format_weekday_time P UTC localDate of
           Inl e \<Rightarrow> Inl e
         | Inr l \<Rightarrow> Inr (make_point P l item))"

text \<open>\<open>forecast.city?.timezone ?? 0\<close>\<close>

definition forecast_offset :: "forecast \<Rightarrow> jsnum" where
  "forecast_offset f =
     (case forecast_city f of
        None \<Rightarrow> Fin 0
      | Some c \<Rightarrow> (case timezone c of None \<Rightarrow> Fin 0 | Some z \<Rightarrow> z))"

definition buildForecastPoints :: "platform \<Rightarrow> forecast option \<Rightarrow> js_error + forecast_point list" where
  "buildForecastPoints P fc =
     (case fc of
        None \<Rightarrow> Inr []
      | Some f \<Rightarrow>
          (case forecast_list f of
             None \<Rightarrow> Inr []
           | Some xs \<Rightarrow>
               if length xs = 0 then Inr []
               else
                 let timezoneOffset = forecast_offset f
                 in map_throwing (forecast_item P timezoneOffset) (take 8 xs)))"

section \<open>Weather session controller\<close>

definition DEFAULT_CITY :: jsstring where
  "DEFAULT_CITY = js ''Madrid''"

definition REFRESH_INTERVAL :: int where
  "REFRESH_INTERVAL = 10 * 60 * 1000"

definition WEATHER_API_BASE :: jsstring where
  "WEATHER_API_BASE = js ''https://api.openweathermap.org/data/2.5''"

record current_conditions =
  name :: "jsstring option"
  country :: "jsstring option"
  current_main :: "main_block option"
  wind_speed :: "jsnum option"
  visibility :: "jsnum option"
  clouds_all :: "jsnum option"
  sunrise :: "jsnum option"
  sunset :: "jsnum option"
  current_timezone :: "jsnum option"

record weather_data =
  current :: current_conditions
  forecast :: forecast

text \<open>The React state of \<open>WeatherDashboard\<close>; \<open>lastUpdated\<close> is the time value of a Date.\<close>

record session =
  city :: jsstring
  searchTerm :: jsstring
  units :: unit_system
  weatherData :: "weather_data option"
  loading :: bool
  error :: "jsstring option"
  lastUpdated :: "int option"

definition initial_session :: session where
  "initial_session =
     \<lparr> city = DEFAULT_CITY, searchTerm = DEFAULT_CITY, units = Metric, weatherData = None,
       loading = False, error = None, lastUpdated = None \<rparr>"

text \<open>What the spec calls currentConditions and forecastSeries.\<close>

definition currentConditions :: "session \<Rightarrow> current_conditions option" where
  "currentConditions s = map_option current (weatherData s)"

definition forecastSeries :: "session \<Rightarrow> forecast option" where
  "forecastSeries s = map_option forecast (weatherData s)"

subsection \<open>The network\<close>

text \<open>
  A settled promise: fulfilled with a value, or rejected with an error, of which the
  controller reads the message only.
\<close>

datatype 'a settled = Rejected jsstring | Fulfilled 'a

text \<open>
  \<open>Promise.all\<close> of two promises that both settle: rejected with the reason of the one
  that rejects first; the flag says that the second one settles before the first.
\<close>

fun Promise_all :: "bool \<Rightarrow> 'a settled \<Rightarrow> 'b settled \<Rightarrow> ('a \<times> 'b) settled" where
  "Promise_all second_first (Fulfilled a) (Fulfilled b) = Fulfilled (a, b)"
| "Promise_all second_first (Rejected m) (Fulfilled b) = Rejected m"
| "Promise_all second_first (Fulfilled a) (Rejected m) = Rejected m"
| "Promise_all second_first (Rejected m1) (Rejected m2) = Rejected (if second_first then m2 else m1)"

text \<open>A response: its status and what \<open>json()\<close> settles to.\<close>

record 'p response =
  status :: nat
  json :: "'p settled"

definition ok :: "('p, 'z) response_scheme \<Rightarrow> bool" where
  "ok r \<longleftrightarrow> 200 \<le> status r \<and> status r \<le> 299"

record network =
  currentRes :: "current_conditions response settled"
  forecastRes :: "forecast response settled"
  forecast_fetch_first :: bool
  forecast_json_first :: bool

text \<open>A request: the URL that \<open>fetch\<close> is given, as base, path and the search parameters.\<close>

record request =
  url_base :: jsstring
  url_path :: jsstring
  url_params :: "(jsstring \<times> jsstring) list"

fun units_text :: "unit_system \<Rightarrow> jsstring" where
  "units_text Metric = js ''metric''"
| "units_text Imperial = js ''imperial''"

definition MISSING_KEY_MESSAGE :: jsstring where
  "MISSING_KEY_MESSAGE =
     js ''Falta la clave de API de OpenWeather. Agrega VITE_OPENWEATHER_API_KEY a un archivo .env.local en la ra''
     @ [0xED] @ js ''z del proyecto.''"

definition INVALID_CITY_MESSAGE :: jsstring where
  "INVALID_CITY_MESSAGE = js ''Ingresa una ciudad v'' @ [0xE1] @ js ''lida para continuar.''"

definition CURRENT_FAILED_MESSAGE :: jsstring where
  "CURRENT_FAILED_MESSAGE = js ''No encontramos datos para esa ubicaci'' @ [0xF3] @ js ''n.''"

definition FORECAST_FAILED_MESSAGE :: jsstring where
  "FORECAST_FAILED_MESSAGE =
     js ''Ocurri'' @ [0xF3] @ js '' un problema al obtener el pron'' @ [0xF3] @ js ''stico extendido.''"

subsection \<open>fetchWeather\<close>

text \<open>
  The body of \<open>fetchWeather\<close> runs in two synchronous parts. The first one checks the
  preconditions and, when they hold, sets the loading flag, clears the error and issues
  the two requests. The second one runs when the awaited promises have settled: it is the
  rest of the \<open>try\<close> block, or the \<open>catch\<close> block, followed by \<open>finally\<close>.
\<close>

definition fetch_params :: "jsstring \<Rightarrow> unit_system \<Rightarrow> jsstring \<Rightarrow> (jsstring \<times> jsstring) list" where
  "fetch_params trimmedCity overrideUnits apiKey =
     [(js ''q'', trimmedCity), (js ''units'', units_text overrideUnits),
      (js ''appid'', apiKey), (js ''lang'', js ''es'')]"

definition fetchWeather_issue ::
  "jsstring option \<Rightarrow> jsstring \<Rightarrow> unit_system \<Rightarrow> session \<Rightarrow> session \<times> request list option" where
  "fetchWeather_issue apiKey overrideCity overrideUnits s =
     (case apiKey of
        None \<Rightarrow> (s\<lparr>error := Some MISSING_KEY_MESSAGE\<rparr>, None)
      | Some key \<Rightarrow>
          if key = [] then (s\<lparr>error := Some MISSING_KEY_MESSAGE\<rparr>, None)
          else
            let trimmedCity = trim overrideCity
            in if trimmedCity = [] then (s\<lparr>error := Some INVALID_CITY_MESSAGE\<rparr>, None)
               else
                 let params = fetch_params trimmedCity overrideUnits key
                 in (s\<lparr>loading := True, error := None\<rparr>,
                     Some [\<lparr>url_base = WEATHER_API_BASE, url_path = js ''/weather'', url_params = params\<rparr>,
                           \<lparr>url_base = WEATHER_API_BASE, url_path = js ''/forecast'', url_params = params\<rparr>]))"

text \<open>What the \<open>try\<close> block comes to once its promises have settled.\<close>

definition fetch_result :: "network \<Rightarrow> weather_data settled" where
  "fetch_result net =
     (case Promise_all (forecast_fetch_first net) (currentRes net) (forecastRes net) of
        Rejected m \<Rightarrow> Rejected m
      | Fulfilled (cr, fr) \<Rightarrow>
          if \<not> ok cr then Rejected CURRENT_FAILED_MESSAGE
          else if \<not> ok fr then Rejected FORECAST_FAILED_MESSAGE
          else
            (case Promise_all (forecast_json_first net) (json cr) (json fr) of
               Rejected m \<Rightarrow> Rejected m
             | Fulfilled (c, f) \<Rightarrow> Fulfilled \<lparr>current = c, forecast = f\<rparr>))"

definition fetchWeather_settle :: "network \<Rightarrow> int \<Rightarrow> session \<Rightarrow> session" where
  "fetchWeather_settle net now s =
     (case fetch_result net of
        Fulfilled w \<Rightarrow> s\<lparr>weatherData := Some w, lastUpdated := Some now, loading := False\<rparr>
      | Rejected m \<Rightarrow> s\<lparr>weatherData := None, error := Some m, loading := False\<rparr>)"

text \<open>
  One call of \<open>fetchWeather\<close> with nothing else running in between: the final state and
  the requests it issued. \<open>net\<close> is what the network answers and \<open>now\<close> the clock at
  the time of settlement.
\<close>

definition fetchWeather ::
  "jsstring option \<Rightarrow> network \<Rightarrow> int \<Rightarrow> jsstring \<Rightarrow> unit_system \<Rightarrow> session \<Rightarrow> session \<times> request list" where
  "fetchWeather apiKey net now overrideCity overrideUnits s =
     (case fetchWeather_issue apiKey overrideCity overrideUnits s of
        (s', None) \<Rightarrow> (s', [])
      | (s', Some reqs) \<Rightarrow> (fetchWeather_settle net now s', reqs))"

text \<open>
  Two calls A and B, issued in this order, where B settles before A does: the four
  synchronous parts in the order in which they run.
\<close>

definition overlapped ::
  "jsstring option \<Rightarrow> network \<Rightarrow> int \<Rightarrow> jsstring \<Rightarrow> unit_system \<Rightarrow>
   network \<Rightarrow> int \<Rightarrow> jsstring \<Rightarrow> unit_system \<Rightarrow> session \<Rightarrow> session" where
  "overlapped apiKey netA nowA cityA unitsA netB nowB cityB unitsB s =
     (case fetchWeather_issue apiKey cityA unitsA s of
        (s1, None) \<Rightarrow> fst (fetchWeather apiKey netB nowB cityB unitsB s1)
      | (s1, Some _) \<Rightarrow>
          (case fetchWeather_issue apiKey cityB unitsB s1 of
             (s2, None) \<Rightarrow> fetchWeather_settle netA nowA s2
           | (s2, Some _) \<Rightarrow> fetchWeather_settle netA nowA (fetchWeather_settle netB nowB s2)))"

section \<open>Notions used to state the properties\<close>

subsection \<open>Assumptions on the platform\<close>

text \<open>
  What the properties below need of the rounding to binary64, each of which holds of
  IEEE 754 rounding: an integer of magnitude up to \<open>2^53\<close> is represented exactly, a
  value of that magnitude does not overflow, and rounding is monotone.
\<close>

definition binary64_like :: "platform \<Rightarrow> bool" where
  "binary64_like P \<longleftrightarrow>
     (\<forall>n::int. \<bar>n\<bar> \<le> 2 ^ 53 \<longrightarrow> fl P (of_int n) = Fin (of_int n)) \<and>
     (\<forall>x. \<bar>x\<bar> \<le> 2 ^ 53 \<longrightarrow> (\<exists>a. fl P x = Fin a)) \<and>
     (\<forall>x y a b. x \<le> y \<and> fl P x = Fin a \<and> fl P y = Fin b \<longrightarrow> a \<le> b)"

text \<open>
  A platform for evaluating examples: arithmetic is exact, which agrees with binary64
  wherever the exact result is a binary64 value, as it is in the examples; the host is
  one hour east of Greenwich; labels are a Spanish weekday abbreviation (the first of
  January 1970 was a Thursday), a comma and the time. Its number-to-string conversion
  is given at the two values beyond \<open>2^53\<close> that the examples print, \<open>10^21\<close> and
  \<open>2^70\<close>, with the digits JavaScript prints for them.
\<close>

definition sample_num_text :: "real \<Rightarrow> jsstring" where
  "sample_num_text x =
     (if x = 10 ^ 21 then js ''1e+21''
      else if x = 2 ^ 70 then js ''1.1805916207174113e+21''
      else [])"

definition es_weekday :: "int \<Rightarrow> jsstring" where
  "es_weekday t =
     (let d = (t div 86400000 + 4) mod 7
      in if d = 0 then js ''dom'' else if d = 1 then js ''lun'' else if d = 2 then js ''mar''
         else if d = 3 then js ''mi'' @ [0xE9] else if d = 4 then js ''jue''
         else if d = 5 then js ''vie'' else js ''s'' @ [0xE1] @ js ''b'')"

definition exact_platform :: platform where
  "exact_platform =
     \<lparr> fl = Fin, num_text = sample_num_text,
       weekday_time_text =
         (\<lambda>t. es_weekday t @ js '', '' @ pad2 (hour_of t) @ js '':'' @ pad2 (minute_of t)),
       local_offset = (\<lambda>t. 3600000) \<rparr>"

subsection \<open>Renderings named by the specification\<close>

text \<open>The nearest integer of a number, the larger one on a tie, in decimal.\<close>

definition nearest_integer_text :: "real \<Rightarrow> jsstring" where
  "nearest_integer_text x =
     (if \<lfloor>x + 1 / 2\<rfloor> < 0 then js ''-'' else []) @ dec (nat \<bar>\<lfloor>x + 1 / 2\<rfloor>\<bar>)"

text \<open>
  A number with one decimal: the tenths closest to its magnitude (the larger count on a
  tie), with a minus sign in front of a negative number.
\<close>

definition one_decimal :: "real \<Rightarrow> jsstring" where
  "one_decimal x =
     (if x < 0 then js ''-'' else []) @ dec (nat \<lfloor>\<bar>x\<bar> * 10 + 1 / 2\<rfloor> div 10) @ js ''.'' @
     dec (nat \<lfloor>\<bar>x\<bar> * 10 + 1 / 2\<rfloor> mod 10)"

text \<open>The 24-hour HH:MM clock time, in UTC, of an instant given in epoch seconds.\<close>

definition utc_clock :: "int \<Rightarrow> jsstring" where
  "utc_clock s = pad2 (nat ((s div 3600) mod 24)) @ js '':'' @ pad2 (nat ((s div 60) mod 60))"

text \<open>An entry whose shifted timestamp is a date that can be formatted.\<close>

definition valid_time :: "platform \<Rightarrow> jsnum \<Rightarrow> forecast_entry \<Rightarrow> bool" where
  "valid_time P timezoneOffset item \<longleftrightarrow>
     new_Date (js_mul P (js_add P (ToNumber (dt item)) timezoneOffset) (Fin 1000)) \<noteq> None"


text \<open>The preconditions of \<open>fetchWeather\<close>: a credential that is not falsy, a city that does not trim to nothing.\<close>

definition preconditions :: "jsstring option \<Rightarrow> jsstring \<Rightarrow> bool" where
  "preconditions apiKey overrideCity \<longleftrightarrow>
     apiKey \<noteq> None \<and> apiKey \<noteq> Some [] \<and> trim overrideCity \<noteq> []"

subsection \<open>Sample data\<close>

definition sample_key :: "jsstring option" where
  "sample_key = Some (js ''k1'')"

definition sample_entry :: "real \<Rightarrow> real \<Rightarrow> forecast_entry" where
  "sample_entry t p =
     \<lparr> dt = OpNumber (Fin t),
       main = Some \<lparr> temp = Some (Fin 21.6), feels_like = None, humidity = Some (Fin 40),
                     pressure = None \<rparr>,
       pop = Some (Fin p) \<rparr>"

definition entry_without_dt :: forecast_entry where
  "entry_without_dt = \<lparr> dt = OpUndefined, main = None, pop = None \<rparr>"

definition ten_entries :: "forecast_entry list" where
  "ten_entries =
     [sample_entry 1700000000 0.35, sample_entry 1700010800 1, sample_entry 1700021600 0,
      sample_entry 1700032400 0.5, sample_entry 1700043200 0.1, sample_entry 1700054000 0.2,
      sample_entry 1700064800 0.3, sample_entry 1700075600 0.4, sample_entry 1700086400 0.6,
      sample_entry 1700097200 0.7]"

definition sample_forecast :: forecast where
  "sample_forecast =
     \<lparr> forecast_list = Some ten_entries, forecast_city = Some \<lparr> timezone = Some (Fin 7200) \<rparr> \<rparr>"

definition broken_forecast :: forecast where
  "broken_forecast =
     \<lparr> forecast_list =
         Some [sample_entry 1700000000 0.35, sample_entry 1700010800 1, entry_without_dt,
               sample_entry 1700032400 0.5, sample_entry 1700043200 0.1,
               sample_entry 1700054000 0.2, sample_entry 1700064800 0.3,
               sample_entry 1700075600 0.4],
       forecast_city = Some \<lparr> timezone = Some (Fin 7200) \<rparr> \<rparr>"

definition sample_current :: "jsstring \<Rightarrow> current_conditions" where
  "sample_current n =
     \<lparr> name = Some n, country = Some (js ''ES''), current_main = None,
       wind_speed = Some (Fin 3.44), visibility = Some (Fin 10000), clouds_all = None,
       sunrise = Some (Fin 1700000000), sunset = None, current_timezone = Some (Fin 7200) \<rparr>"

text \<open>Both requests answered with status 200 and a body that parses.\<close>

definition net_ok :: "jsstring \<Rightarrow> network" where
  "net_ok n =
     \<lparr> currentRes = Fulfilled \<lparr> status = 200, json = Fulfilled (sample_current n) \<rparr>,
       forecastRes = Fulfilled \<lparr> status = 200, json = Fulfilled sample_forecast \<rparr>,
       forecast_fetch_first = False, forecast_json_first = False \<rparr>"

text \<open>The current-conditions request answered with status 404, the forecast with 200.\<close>

definition net_not_found :: network where
  "net_not_found =
     \<lparr> currentRes = Fulfilled \<lparr> status = 404, json = Fulfilled (sample_current []) \<rparr>,
       forecastRes = Fulfilled \<lparr> status = 200, json = Fulfilled sample_forecast \<rparr>,
       forecast_fetch_first = False, forecast_json_first = False \<rparr>"



text \<open>The session after a first successful cycle for the default city.\<close>

definition loaded_session :: session where
  "loaded_session =
     fst (fetchWeather sample_key (net_ok (js ''Madrid'')) 1000 DEFAULT_CITY Metric initial_session)"


section \<open>Auxiliary facts\<close>

subsection \<open>Strings and numbers\<close>

lemma js_Nil_iff [simp]: "js s = [] \<longleftrightarrow> s = []"
  by (simp add: js_def)

lemma trim_blank: "trim (js ''  '') = []"
  by (simp add: trim_def js_def is_js_space_def)

lemma trim_Madrid: "trim (js ''Madrid'') = js ''Madrid''"
  by (simp add: trim_def js_def is_js_space_def)

lemma trim_Lima: "trim (js ''Lima'') = js ''Lima''"
  by (simp add: trim_def js_def is_js_space_def)

lemma type_names_distinct [simp]:
  "js ''undefined'' \<noteq> js ''number''" "js ''object'' \<noteq> js ''number''"
  "js ''boolean'' \<noteq> js ''number''" "js ''string'' \<noteq> js ''number''"
  by (simp_all add: js_def)

lemma dec_digit: "n < 10 \<Longrightarrow> dec n = [of_nat (48 + n)]"
  by (subst dec.simps) simp

lemma dec_step: "10 \<le> n \<Longrightarrow> dec n = dec (n div 10) @ [of_nat (48 + n mod 10)]"
  by (subst dec.simps) simp

lemma dec_not_Nil: "dec n \<noteq> []"
  by (subst dec.simps) simp

lemma fixed_digits_one: "fixed_digits (Suc 0) n = dec (n div 10) @ js ''.'' @ dec (n mod 10)"
proof (cases "n < 10")
  case True
  then show ?thesis by (simp add: fixed_digits_def dec_digit Let_def)
next
  case False
  then have "dec n = dec (n div 10) @ [of_nat (48 + n mod 10)]" by (simp add: dec_step)
  moreover have "dec (n div 10) \<noteq> []" by (rule dec_not_Nil)
  moreover have "dec (n mod 10) = [of_nat (48 + n mod 10)]" by (simp add: dec_digit)
  ultimately show ?thesis by (cases "dec (n div 10)") (simp_all add: fixed_digits_def Let_def)
qed

lemma toFixed_one_decimal:
  "\<bar>x\<bar> < 10 ^ 21 \<Longrightarrow> toFixed P (Suc 0) (Fin x) = Inr (one_decimal x)"
  by (simp add: toFixed_def one_decimal_def Let_def fixed_digits_one)

lemma toFixed_total: "f \<le> 100 \<Longrightarrow> \<exists>t. toFixed P f v = Inr t"
  by (cases v) (simp_all add: toFixed_def Let_def)

lemma round_text:
  assumes "\<bar>\<lfloor>x + 1 / 2\<rfloor>\<bar> \<le> 2 ^ 53"
  shows "ToString P (Math_round (Fin x)) = nearest_integer_text x"
proof -
  define k where "k = \<lfloor>x + 1 / 2\<rfloor>"
  have "\<bar>(of_int k :: real)\<bar> \<le> 2 ^ 53"
  proof -
    have "\<bar>(of_int k :: real)\<bar> = of_int \<bar>k\<bar>" by simp
    also have "\<dots> \<le> of_int (2 ^ 53)" using assms unfolding k_def by (simp only: of_int_le_iff)
    finally show ?thesis by simp
  qed
  then show ?thesis
    by (simp add: nearest_integer_text_def k_def [symmetric] of_int_abs [symmetric] del: of_int_abs)
qed

lemma binary64_like_exact: "binary64_like exact_platform"
  by (simp add: binary64_like_def exact_platform_def)

lemma fl_exact_int: "binary64_like P \<Longrightarrow> \<bar>n\<bar> \<le> 2 ^ 53 \<Longrightarrow> fl P (of_int n) = Fin (of_int n)"
  by (simp add: binary64_like_def)

subsection \<open>Formatters\<close>

lemma formatters_total:
  "\<exists>a b c. formatTemperature P v u = Inr a \<and> formatWindSpeed P v u = Inr b \<and>
           formatVisibility P v = Inr c"
proof (cases v)
  case (Number n)
  obtain t1 where t1: "toFixed P 1 n = Inr t1" using toFixed_total [of 1 P n] by auto
  obtain t2 where t2: "toFixed P 1 (js_div P n (Fin 1000)) = Inr t2"
    using toFixed_total [of 1 P "js_div P n (Fin 1000)"] by auto
  from Number t1 t2 show ?thesis
    by (simp add: formatTemperature_def formatWindSpeed_def formatVisibility_def)
qed (simp_all add: formatTemperature_def formatWindSpeed_def formatVisibility_def)

lemma formatters_placeholder:
  "typeof v \<noteq> js ''number'' \<longrightarrow>
     formatTemperature P v u = Inr (js ''--'') \<and> formatWindSpeed P v u = Inr (js ''--'') \<and>
     formatVisibility P v = Inr (js ''--'')"
  by (simp add: formatTemperature_def formatWindSpeed_def formatVisibility_def)

lemma formatTemperature_finite:
  "v = Number (Fin x) \<and> \<bar>\<lfloor>x + 1 / 2\<rfloor>\<bar> \<le> 2 ^ 53 \<longrightarrow>
     formatTemperature P v u = Inr (nearest_integer_text x @ TEMPERATURE_UNIT u)"
  by (simp add: formatTemperature_def round_text del: Math_round.simps ToString.simps)

lemma formatWindSpeed_finite:
  "v = Number (Fin x) \<and> \<bar>x\<bar> < 10 ^ 21 \<longrightarrow>
     formatWindSpeed P v u = Inr (one_decimal x @ js '' '' @ WIND_UNIT u)"
  by (simp add: formatWindSpeed_def toFixed_one_decimal)

lemma formatVisibility_finite:
  "v = Number (Fin x) \<and> fl P (x / 1000) = Fin y \<and> \<bar>y\<bar> < 10 ^ 21 \<longrightarrow>
     formatVisibility P v = Inr (one_decimal y @ js '' km'')"
  by (simp add: formatVisibility_def toFixed_one_decimal)

lemma formatTemperature_number:
  "v = Number (Fin x) \<longrightarrow>
     formatTemperature P v u = Inr (ToString P (Fin (of_int \<lfloor>x + 1 / 2\<rfloor>)) @ TEMPERATURE_UNIT u)"
  by (simp add: formatTemperature_def del: ToString.simps)

lemma big_not_small: "(10::real) ^ 21 \<le> a \<Longrightarrow> \<not> a \<le> 2 ^ 53"
  by simp

lemma toFixed_large:
  "10 ^ 21 \<le> \<bar>x\<bar> \<Longrightarrow>
   toFixed P (Suc 0) (Fin x) = Inr ((if x < 0 then js ''-'' else []) @ num_text P \<bar>x\<bar>)"
proof -
  assume a: "10 ^ 21 \<le> \<bar>x\<bar>"
  then have "\<not> \<bar>x\<bar> \<le> 2 ^ 53" by (rule big_not_small)
  then have "ToString P (Fin \<bar>x\<bar>) = num_text P \<bar>x\<bar>" by simp
  with a show ?thesis by (simp add: toFixed_def Let_def del: ToString.simps)
qed

lemma formatWindSpeed_large:
  "v = Number (Fin x) \<and> 10 ^ 21 \<le> \<bar>x\<bar> \<longrightarrow>
     formatWindSpeed P v u =
       Inr ((if x < 0 then js ''-'' else []) @ num_text P \<bar>x\<bar> @ js '' '' @ WIND_UNIT u)"
  by (simp add: formatWindSpeed_def toFixed_large)

lemma formatVisibility_large:
  "v = Number (Fin x) \<and> fl P (x / 1000) = Fin y \<and> 10 ^ 21 \<le> \<bar>y\<bar> \<longrightarrow>
     formatVisibility P v = Inr ((if y < 0 then js ''-'' else []) @ num_text P \<bar>y\<bar> @ js '' km'')"
  by (simp add: formatVisibility_def toFixed_large)

lemma formatters_by_name:
  "formatTemperature P (Number NaN) u = Inr (js ''NaN'' @ TEMPERATURE_UNIT u)"
  "formatTemperature P (Number PosInf) u = Inr (js ''Infinity'' @ TEMPERATURE_UNIT u)"
  "formatTemperature P (Number NegInf) u = Inr (js ''-Infinity'' @ TEMPERATURE_UNIT u)"
  "formatWindSpeed P (Number NaN) u = Inr (js ''NaN'' @ js '' '' @ WIND_UNIT u)"
  "formatWindSpeed P (Number PosInf) u = Inr (js ''Infinity'' @ js '' '' @ WIND_UNIT u)"
  "formatWindSpeed P (Number NegInf) u = Inr (js ''-Infinity'' @ js '' '' @ WIND_UNIT u)"
  "formatVisibility P (Number NaN) = Inr (js ''NaN'' @ js '' km'')"
  "formatVisibility P (Number PosInf) = Inr (js ''Infinity'' @ js '' km'')"
  "formatVisibility P (Number NegInf) = Inr (js ''-Infinity'' @ js '' km'')"
  by (simp_all add: formatTemperature_def formatWindSpeed_def formatVisibility_def toFixed_def)

subsection \<open>Sun events\<close>

lemma zoned_UTC: "zoned P UTC t = t"
  by (simp add: zoned_def)

lemma js_add_host: "js_add (P\<lparr>local_offset := z\<rparr>) a b = js_add P a b"
  by (cases a; cases b) simp_all

lemma js_mul_host: "js_mul (P\<lparr>local_offset := z\<rparr>) a b = js_mul P a b"
  by (cases a; cases b) simp_all

lemma formatSunEvent_host:
  "formatSunEvent (P\<lparr>local_offset := z\<rparr>) ts off = formatSunEvent P ts off"
  by (simp add: formatSunEvent_def js_add_host js_mul_host toLocaleTimeString_def zoned_UTC
      split: option.splits)

lemma formatSunEvent_falsy:
  "ts = None \<or> ts = Some NaN \<or> ts = Some (Fin 0) \<longrightarrow> formatSunEvent P ts tz = js ''--''"
  by (auto simp: formatSunEvent_def falsy_num_def)

lemma new_Date_int:
  assumes "\<bar>m\<bar> \<le> 8640000000000000"
  shows "new_Date (Fin (of_int m)) = Some m"
proof -
  from assms have "\<bar>(of_int m :: real)\<bar> \<le> of_int 8640000000000000"
    by (simp only: of_int_abs [symmetric] of_int_le_iff)
  then show ?thesis by (simp add: new_Date_def)
qed

lemma clock_of_ms:
  "hour_of (s * 1000) = nat ((s div 3600) mod 24)"
  "minute_of (s * 1000) = nat ((s div 60) mod 60)"
proof -
  have "s * 1000 div (3600 * 1000) = s div 3600" by (rule div_mult_mult2) simp
  then have h: "s * 1000 div 3600000 = s div 3600" by simp
  have "s * 1000 div (60 * 1000) = s div 60" by (rule div_mult_mult2) simp
  then have m: "s * 1000 div 60000 = s div 60" by simp
  show "hour_of (s * 1000) = nat ((s div 3600) mod 24)" by (simp add: hour_of_def h)
  show "minute_of (s * 1000) = nat ((s div 60) mod 60)" by (simp add: minute_of_def m)
qed

lemma formatSunEvent_seconds:
  assumes P: "binary64_like P" and t: "t \<noteq> 0" and r: "\<bar>t + off\<bar> * 1000 \<le> 8640000000000000"
  shows "formatSunEvent P (Some (Fin (of_int t))) (Fin (of_int off)) = utc_clock (t + off)"
proof -
  from r have r1: "\<bar>t + off\<bar> \<le> 2 ^ 53" by simp
  from r have r2: "\<bar>(t + off) * 1000\<bar> \<le> 2 ^ 53" by (simp add: abs_mult)
  from r have r3: "\<bar>(t + off) * 1000\<bar> \<le> 8640000000000000" by (simp add: abs_mult)
  have "js_add P (Fin (of_int t)) (Fin (of_int off)) = fl P (of_int (t + off))" by simp
  also have "\<dots> = Fin (of_int (t + off))" using P r1 by (rule fl_exact_int)
  finally have a: "js_add P (Fin (of_int t)) (Fin (of_int off)) = Fin (of_int (t + off))" .
  have "js_mul P (Fin (of_int (t + off))) (Fin 1000) = fl P (of_int ((t + off) * 1000))" by simp
  also have "\<dots> = Fin (of_int ((t + off) * 1000))" using P r2 by (rule fl_exact_int)
  finally have m: "js_mul P (Fin (of_int (t + off))) (Fin 1000) = Fin (of_int ((t + off) * 1000))" .
  have d: "new_Date (Fin (of_int ((t + off) * 1000))) = Some ((t + off) * 1000)"
    using r3 by (rule new_Date_int)
  from t have f: "\<not> falsy_num (Fin (of_int t))" by (simp add: falsy_num_def)
  show ?thesis
    by (simp only: formatSunEvent_def option.case f if_False a m d Let_def toLocaleTimeString_def
        zoned_UTC clock_of_ms utc_clock_def)
qed

lemma formatSunEvent_in_range:
  "binary64_like P \<and> t \<noteq> 0 \<and> \<bar>t + off\<bar> * 1000 \<le> 8640000000000000 \<longrightarrow>
     formatSunEvent P (Some (Fin (of_int t))) (Fin (of_int off)) = utc_clock (t + off)"
  by (simp add: formatSunEvent_seconds)

lemma clock_of_time_value:
  "pad2 (hour_of t) @ js '':'' @ pad2 (minute_of t) = utc_clock (t div 1000)"
proof -
  have "t div (1000 * 3600) = t div 1000 div 3600" by (rule zdiv_zmult2_eq) simp
  then have h: "t div 3600000 = t div 1000 div 3600" by simp
  have "t div (1000 * 60) = t div 1000 div 60" by (rule zdiv_zmult2_eq) simp
  then have m: "t div 60000 = t div 1000 div 60" by simp
  show ?thesis by (simp add: hour_of_def minute_of_def utc_clock_def h m)
qed

lemma formatSunEvent_valid:
  "\<not> falsy_num x \<and> js_mul P (js_add P x tz) (Fin 1000) = Fin y \<and> \<bar>y\<bar> \<le> 8640000000000000 \<longrightarrow>
     formatSunEvent P (Some x) tz = utc_clock ((if 0 \<le> y then \<lfloor>y\<rfloor> else \<lceil>y\<rceil>) div 1000)"
  by (simp add: formatSunEvent_def new_Date_def toLocaleTimeString_def zoned_UTC
      clock_of_time_value)

lemma formatSunEvent_invalid:
  "\<not> falsy_num x \<and>
   (\<forall>y. js_mul P (js_add P x tz) (Fin 1000) = Fin y \<longrightarrow> 8640000000000000 < \<bar>y\<bar>) \<longrightarrow>
     formatSunEvent P (Some x) tz = js ''Invalid Date''"
  by (cases "js_mul P (js_add P x tz) (Fin 1000)")
     (simp_all add: formatSunEvent_def new_Date_def toLocaleTimeString_def)

lemma formatSunEvent_sample:
  "binary64_like P \<longrightarrow>
     formatSunEvent P (Some (Fin 1700000000)) (Fin 7200) = utc_clock 1700007200"
  using formatSunEvent_seconds [of P 1700000000 7200] by simp

lemma utc_clock_sample: "utc_clock 1700007200 = js ''00:13''"
  by (simp add: utc_clock_def pad2_def dec.simps js_def)

subsection \<open>Forecast projector\<close>

lemma map_throwing_Inr:
  "\<forall>x\<in>set xs. \<exists>y. f x = Inr y \<Longrightarrow>
   \<exists>ys. map_throwing f xs = Inr ys \<and> length ys = length xs \<and>
        (\<forall>i<length xs. f (xs ! i) = Inr (ys ! i))"
proof (induction xs)
  case Nil
  then show ?case by simp
next
  case (Cons x xs)
  from Cons.prems obtain y where y: "f x = Inr y" by auto
  from Cons obtain ys where ys: "map_throwing f xs = Inr ys" "length ys = length xs"
    "\<forall>i<length xs. f (xs ! i) = Inr (ys ! i)" by auto
  have "\<forall>i<length (x # xs). f ((x # xs) ! i) = Inr ((y # ys) ! i)"
    using y ys(3) by (auto simp: nth_Cons split: nat.splits)
  with y ys(1,2) show ?case by simp
qed

lemma forecast_item_valid:
  "valid_time P tz e \<Longrightarrow> \<exists>l. forecast_item P tz e = Inr (make_point P l e)"
  by (auto simp: valid_time_def forecast_item_def format_weekday_time_def Let_def)

lemma forecast_item_invalid:
  "\<not> valid_time P tz e \<Longrightarrow> forecast_item P tz e = Inl RangeError"
  by (auto simp: valid_time_def forecast_item_def format_weekday_time_def Let_def)

lemma precipitation_make_point:
  "precipitation (make_point P l e) =
     Math_round (js_mul P (case pop e of None \<Rightarrow> Fin 0 | Some p \<Rightarrow> p) (Fin 100))"
  by (simp add: make_point_def)

lemma percent_bound:
  assumes P: "binary64_like P" and p: "0 \<le> p" "p \<le> 1"
  shows "\<exists>k. Math_round (js_mul P (Fin p) (Fin 100)) = Fin (of_int k) \<and> 0 \<le> k \<and> k \<le> 100"
proof -
  have range: "0 \<le> p * 100" "p * 100 \<le> 100" using p by simp_all
  then have "\<bar>p * 100\<bar> \<le> 2 ^ 53" by simp
  with P obtain a where a: "fl P (p * 100) = Fin a" by (auto simp: binary64_like_def)
  have z: "fl P 0 = Fin 0" using fl_exact_int [OF P, of 0] by simp
  have h: "fl P 100 = Fin 100" using fl_exact_int [OF P, of 100] by simp
  from P have mono: "\<And>x y a b. x \<le> y \<Longrightarrow> fl P x = Fin a \<Longrightarrow> fl P y = Fin b \<Longrightarrow> a \<le> b"
    unfolding binary64_like_def by blast
  have lo: "0 \<le> a" using mono [OF range(1) z a] .
  have hi: "a \<le> 100" using mono [OF range(2) a h] .
  have "0 \<le> \<lfloor>a + 1 / 2\<rfloor>" using lo by simp
  moreover have "\<lfloor>a + 1 / 2\<rfloor> \<le> 100"
  proof -
    have "a + 1 / 2 < 101" using hi by simp
    then have "\<lfloor>a + 1 / 2\<rfloor> < 101" by (simp add: floor_less_iff)
    then show ?thesis by simp
  qed
  ultimately show ?thesis using a by auto
qed

lemma precipitation_bound:
  assumes "binary64_like P"
    and "pop e = None \<or> (\<exists>p. pop e = Some (Fin p) \<and> 0 \<le> p \<and> p \<le> 1)"
  shows "\<exists>k. precipitation (make_point P l e) = Fin (of_int k) \<and> 0 \<le> k \<and> k \<le> 100"
proof -
  from assms(2) obtain p where
    p: "(case pop e of None \<Rightarrow> Fin 0 | Some q \<Rightarrow> q) = Fin p" "0 \<le> p" "p \<le> 1"
    by (auto split: option.splits)
  from percent_bound [OF assms(1) p(2,3)] p(1) show ?thesis
    by (simp only: precipitation_make_point)
qed

lemma map_throwing_Inl:
  assumes "\<And>y e'. f y = Inl e' \<Longrightarrow> e' = e"
  shows "x \<in> set xs \<Longrightarrow> f x = Inl e \<Longrightarrow> map_throwing f xs = Inl e"
proof (induction xs)
  case Nil
  then show ?case by simp
next
  case (Cons a xs)
  show ?case
  proof (cases "f a")
    case (Inl e')
    then have "e' = e" by (rule assms)
    with Inl show ?thesis by simp
  next
    case (Inr y)
    with Cons.prems have "x \<in> set xs" by auto
    then have "map_throwing f xs = Inl e" using Cons.prems(2) by (rule Cons.IH)
    with Inr show ?thesis by simp
  qed
qed

lemma forecast_item_error: "forecast_item P tz e = Inl err \<Longrightarrow> err = RangeError"
  by (auto simp: forecast_item_def format_weekday_time_def Let_def split: option.splits)

lemma valid_time_iff:
  "valid_time P tz e \<longleftrightarrow>
     (\<exists>y. js_mul P (js_add P (ToNumber (dt e)) tz) (Fin 1000) = Fin y \<and> \<bar>y\<bar> \<le> 8640000000000000)"
  by (cases "js_mul P (js_add P (ToNumber (dt e)) tz) (Fin 1000)")
     (auto simp: valid_time_def new_Date_def)

lemma undefined_dt_invalid: "dt e = OpUndefined \<longrightarrow> \<not> valid_time P tz e"
  by (simp add: valid_time_def new_Date_def)

lemma buildForecastPoints_invalid:
  "fc = Some f \<and> forecast_list f = Some xs \<and>
   (\<exists>e\<in>set (take 8 xs). \<not> valid_time P (forecast_offset f) e) \<longrightarrow>
     buildForecastPoints P fc = Inl RangeError"
proof
  assume h: "fc = Some f \<and> forecast_list f = Some xs \<and>
    (\<exists>e\<in>set (take 8 xs). \<not> valid_time P (forecast_offset f) e)"
  then obtain e where e: "e \<in> set (take 8 xs)" "\<not> valid_time P (forecast_offset f) e" by blast
  from e(2) have i: "forecast_item P (forecast_offset f) e = Inl RangeError"
    by (rule forecast_item_invalid)
  have m: "map_throwing (forecast_item P (forecast_offset f)) (take 8 xs) = Inl RangeError"
    using forecast_item_error e(1) i by (rule map_throwing_Inl)
  from e(1) have "xs \<noteq> []" by auto
  with h m show "buildForecastPoints P fc = Inl RangeError"
    by (simp add: buildForecastPoints_def Let_def)
qed

lemma buildForecastPoints_empty:
  "fc = None \<or> (\<exists>f. fc = Some f \<and> (forecast_list f = None \<or> forecast_list f = Some [])) \<longrightarrow>
     buildForecastPoints P fc = Inr []"
  by (auto simp: buildForecastPoints_def)

lemma buildForecastPoints_valid:
  assumes fc: "fc = Some f" and xs: "forecast_list f = Some xs"
    and v: "\<forall>e\<in>set (take 8 xs). valid_time P (forecast_offset f) e"
  shows "\<exists>pts. buildForecastPoints P fc = Inr pts \<and> length pts = min 8 (length xs) \<and>
           (\<forall>i<length pts. \<exists>l. pts ! i = make_point P l (xs ! i))"
proof -
  from v have "\<forall>e\<in>set (take 8 xs). \<exists>y. forecast_item P (forecast_offset f) e = Inr y"
    using forecast_item_valid by blast
  from map_throwing_Inr [OF this] obtain pts where
    pts: "map_throwing (forecast_item P (forecast_offset f)) (take 8 xs) = Inr pts"
      "length pts = length (take 8 xs)"
      "\<forall>i<length (take 8 xs). forecast_item P (forecast_offset f) (take 8 xs ! i) = Inr (pts ! i)"
    by blast
  have b: "buildForecastPoints P fc = Inr pts"
    using fc xs pts(1) by (cases xs) (simp_all add: buildForecastPoints_def Let_def)
  have l: "length pts = min 8 (length xs)" using pts(2) by (simp add: min.commute)
  have "\<exists>l. pts ! i = make_point P l (xs ! i)" if i: "i < length pts" for i
  proof -
    from i pts(2) have i8: "i < length (take 8 xs)" by simp
    then have e: "take 8 xs ! i \<in> set (take 8 xs)" by (rule nth_mem)
    from i8 have n: "take 8 xs ! i = xs ! i" by simp
    from v e obtain l where
      "forecast_item P (forecast_offset f) (take 8 xs ! i) = Inr (make_point P l (take 8 xs ! i))"
      using forecast_item_valid by blast
    with pts(3) i8 n show ?thesis by auto
  qed
  with b l show ?thesis by blast
qed

lemma buildForecastPoints_points:
  "fc = Some f \<and> forecast_list f = Some xs \<and>
   (\<forall>e\<in>set (take 8 xs). valid_time P (forecast_offset f) e) \<longrightarrow>
     (\<exists>pts. buildForecastPoints P fc = Inr pts \<and> length pts = min 8 (length xs) \<and>
        (8 \<le> length xs \<longrightarrow> length pts = 8) \<and>
        (\<forall>i<length pts.
           (\<exists>l. pts ! i = make_point P l (xs ! i)) \<and>
           precipitation (pts ! i) =
             Math_round (js_mul P (case pop (xs ! i) of None \<Rightarrow> Fin 0 | Some p \<Rightarrow> p) (Fin 100)) \<and>
           (binary64_like P \<and>
            (pop (xs ! i) = None \<or> (\<exists>p. pop (xs ! i) = Some (Fin p) \<and> 0 \<le> p \<and> p \<le> 1)) \<longrightarrow>
              (\<exists>k. precipitation (pts ! i) = Fin (of_int k) \<and> 0 \<le> k \<and> k \<le> 100))))"
  (is "?H \<longrightarrow> ?C")
proof
  assume h: ?H
  then obtain pts where pts: "buildForecastPoints P fc = Inr pts" "length pts = min 8 (length xs)"
    "\<forall>i<length pts. \<exists>l. pts ! i = make_point P l (xs ! i)"
    using buildForecastPoints_valid [of fc f xs P] by blast
  have "(\<exists>l. pts ! i = make_point P l (xs ! i)) \<and>
        precipitation (pts ! i) =
          Math_round (js_mul P (case pop (xs ! i) of None \<Rightarrow> Fin 0 | Some p \<Rightarrow> p) (Fin 100)) \<and>
        (binary64_like P \<and>
         (pop (xs ! i) = None \<or> (\<exists>p. pop (xs ! i) = Some (Fin p) \<and> 0 \<le> p \<and> p \<le> 1)) \<longrightarrow>
           (\<exists>k. precipitation (pts ! i) = Fin (of_int k) \<and> 0 \<le> k \<and> k \<le> 100))"
    if "i < length pts" for i
  proof -
    from pts(3) that obtain l where l: "pts ! i = make_point P l (xs ! i)" by blast
    show ?thesis
      using l precipitation_bound [of P "xs ! i" l] by (auto simp only: precipitation_make_point)
  qed
  moreover have "8 \<le> length xs \<longrightarrow> length pts = 8" using pts(2) by simp
  ultimately show ?C using pts(1,2) by blast
qed

lemma valid_sample_entry:
  "\<bar>t + 7200\<bar> * 1000 \<le> 8640000000000000 \<Longrightarrow>
   valid_time exact_platform (Fin 7200) (sample_entry t p)"
  by (simp add: valid_time_def sample_entry_def exact_platform_def new_Date_def abs_mult)

lemma forecast_item_sample:
  "\<bar>t + 7200\<bar> * 1000 \<le> 8640000000000000 \<Longrightarrow>
   \<exists>y. forecast_item exact_platform (Fin 7200) (sample_entry t p) = Inr y"
  using forecast_item_valid [OF valid_sample_entry] by blast

subsection \<open>Session controller\<close>

lemma messages_distinct:
  "MISSING_KEY_MESSAGE \<noteq> INVALID_CITY_MESSAGE" "CURRENT_FAILED_MESSAGE \<noteq> FORECAST_FAILED_MESSAGE"
  by (simp_all add: MISSING_KEY_MESSAGE_def INVALID_CITY_MESSAGE_def CURRENT_FAILED_MESSAGE_def
      FORECAST_FAILED_MESSAGE_def js_def)

lemma issue_no_key:
  "apiKey = None \<or> apiKey = Some [] \<Longrightarrow>
   fetchWeather_issue apiKey c u s = (s\<lparr>error := Some MISSING_KEY_MESSAGE\<rparr>, None)"
  by (auto simp: fetchWeather_issue_def)

lemma issue_no_city:
  "apiKey = Some key \<Longrightarrow> key \<noteq> [] \<Longrightarrow> trim c = [] \<Longrightarrow>
   fetchWeather_issue apiKey c u s = (s\<lparr>error := Some INVALID_CITY_MESSAGE\<rparr>, None)"
  by (simp add: fetchWeather_issue_def)

lemma issue_accepted:
  "apiKey = Some key \<Longrightarrow> key \<noteq> [] \<Longrightarrow> trim c \<noteq> [] \<Longrightarrow>
   fetchWeather_issue apiKey c u s =
     (s\<lparr>loading := True, error := None\<rparr>,
      Some [\<lparr>url_base = WEATHER_API_BASE, url_path = js ''/weather'',
             url_params = fetch_params (trim c) u key\<rparr>,
            \<lparr>url_base = WEATHER_API_BASE, url_path = js ''/forecast'',
             url_params = fetch_params (trim c) u key\<rparr>])"
  by (simp add: fetchWeather_issue_def Let_def)



lemma fetchWeather_refused:
  "\<not> preconditions apiKey c \<Longrightarrow>
   fetchWeather apiKey net now c u s =
     (s\<lparr>error := Some (if apiKey = None \<or> apiKey = Some [] then MISSING_KEY_MESSAGE
                         else INVALID_CITY_MESSAGE)\<rparr>, [])"
  by (cases apiKey) (auto simp: preconditions_def fetchWeather_def issue_no_key issue_no_city)

lemma fetchWeather_accepted:
  "preconditions apiKey c \<Longrightarrow>
   fst (fetchWeather apiKey net now c u s) =
     fetchWeather_settle net now (s\<lparr>loading := True, error := None\<rparr>)"
  by (cases apiKey) (auto simp: preconditions_def fetchWeather_def issue_accepted)

lemma overlapped_accepted:
  "preconditions apiKey cityA \<Longrightarrow> preconditions apiKey cityB \<Longrightarrow>
   overlapped apiKey netA nowA cityA unitsA netB nowB cityB unitsB s =
     fetchWeather_settle netA nowA (fetchWeather_settle netB nowB (s\<lparr>loading := True, error := None\<rparr>))"
  by (cases apiKey) (auto simp: preconditions_def overlapped_def issue_accepted)

lemma preconditions_sample:
  "preconditions sample_key (js ''Madrid'')" "preconditions sample_key (js ''Lima'')"
  "preconditions sample_key DEFAULT_CITY" "\<not> preconditions sample_key (js ''  '')"
  "\<not> preconditions None (js ''Madrid'')"
  by (simp_all add: preconditions_def sample_key_def DEFAULT_CITY_def trim_Madrid trim_Lima trim_blank)

lemma sample_key_present: "sample_key \<noteq> None" "sample_key \<noteq> Some []"
  by (simp_all add: sample_key_def)

lemma refused_blank_city:
  "fetchWeather sample_key net now (js ''  '') u s = (s\<lparr>error := Some INVALID_CITY_MESSAGE\<rparr>, [])"
  by (simp add: fetchWeather_refused preconditions_sample sample_key_present)

lemma refused_no_key:
  "fetchWeather None net now c u s = (s\<lparr>error := Some MISSING_KEY_MESSAGE\<rparr>, [])"
  by (simp add: fetchWeather_refused preconditions_def)

lemma fetch_result_net_ok:
  "fetch_result (net_ok n) = Fulfilled \<lparr>current = sample_current n, forecast = sample_forecast\<rparr>"
  by (simp add: fetch_result_def net_ok_def ok_def)

lemma fetch_result_net_not_found: "fetch_result net_not_found = Rejected CURRENT_FAILED_MESSAGE"
  by (simp add: fetch_result_def net_not_found_def ok_def)


lemma loaded_session_eq:
  "loaded_session =
     initial_session\<lparr>weatherData := Some \<lparr>current = sample_current (js ''Madrid''), forecast = sample_forecast\<rparr>,
                     lastUpdated := Some 1000\<rparr>"
  by (simp add: loaded_session_def fetchWeather_accepted preconditions_sample
      fetchWeather_settle_def fetch_result_net_ok initial_session_def)


lemma sample_current_inject: "sample_current (js ''Madrid'') \<noteq> sample_current (js ''Lima'')"
  by (simp add: sample_current_def js_def)

section \<open>Properties of the session controller\<close>




text \<open>
  Claim C2. When the API credential is absent (undefined or the empty string) the error
  becomes the missing-credential message and no request is issued; when the credential is
  present and the city trims to the empty string the error becomes the invalid-city
  message and no request is issued; the two messages differ; otherwise exactly the two
  requests are issued, for the trimmed city, the units, the credential and the language.
\<close>

theorem fetchWeather_guards_requests:
  "(apiKey = None \<or> apiKey = Some [] \<longrightarrow>
      error (fst (fetchWeather apiKey net now overrideCity overrideUnits s)) = Some MISSING_KEY_MESSAGE \<and>
      snd (fetchWeather apiKey net now overrideCity overrideUnits s) = []) \<and>
   (apiKey = Some key \<and> key \<noteq> [] \<and> trim overrideCity = [] \<longrightarrow>
      error (fst (fetchWeather apiKey net now overrideCity overrideUnits s)) = Some INVALID_CITY_MESSAGE \<and>
      snd (fetchWeather apiKey net now overrideCity overrideUnits s) = []) \<and>
   (apiKey = Some key \<and> key \<noteq> [] \<and> trim overrideCity \<noteq> [] \<longrightarrow>
      snd (fetchWeather apiKey net now overrideCity overrideUnits s) =
        [\<lparr>url_base = WEATHER_API_BASE, url_path = js ''/weather'',
          url_params = fetch_params (trim overrideCity) overrideUnits key\<rparr>,
         \<lparr>url_base = WEATHER_API_BASE, url_path = js ''/forecast'',
          url_params = fetch_params (trim overrideCity) overrideUnits key\<rparr>]) \<and>
   MISSING_KEY_MESSAGE \<noteq> INVALID_CITY_MESSAGE"
  by (auto simp: fetchWeather_def issue_no_key issue_no_city issue_accepted messages_distinct)

text \<open>
  Instances of C2: no credential, a blank city, and a call that is let through, which
  issues two requests.
\<close>

theorem fetchWeather_guards_requests_witness:
  "error (fst (fetchWeather None (net_ok (js ''Madrid'')) 0 (js ''Madrid'') Metric initial_session))
     = Some MISSING_KEY_MESSAGE \<and>
   snd (fetchWeather None (net_ok (js ''Madrid'')) 0 (js ''Madrid'') Metric initial_session) = [] \<and>
   error (fst (fetchWeather (Some (js ''k1'')) (net_ok (js ''Madrid'')) 0 (js ''  '') Metric initial_session))
     = Some INVALID_CITY_MESSAGE \<and>
   snd (fetchWeather (Some (js ''k1'')) (net_ok (js ''Madrid'')) 0 (js ''  '') Metric initial_session) = [] \<and>
   map url_path
     (snd (fetchWeather (Some (js ''k1'')) (net_ok (js ''Madrid'')) 0 (js ''Madrid'') Imperial initial_session))
     = [js ''/weather'', js ''/forecast'']"
  using
    fetchWeather_guards_requests
      [of None "net_ok (js ''Madrid'')" 0 "js ''Madrid''" Metric initial_session "js ''k1''"]
    fetchWeather_guards_requests
      [of "Some (js ''k1'')" "net_ok (js ''Madrid'')" 0 "js ''  ''" Metric initial_session "js ''k1''"]
    fetchWeather_guards_requests
      [of "Some (js ''k1'')" "net_ok (js ''Madrid'')" 0 "js ''Madrid''" Imperial initial_session "js ''k1''"]
  by (simp add: trim_blank trim_Madrid)









text \<open>
  Claim C9, as amended. The controller has no guard on the order of settlement: of two
  accepted calls A and B, issued in this order, with A settling after B, the last
  settlement wins. The final state is A's settlement applied to the state B left: the
  weather data is A's (its payload on success, null on failure) and the loading flag is
  false; the error is A's message when A failed and what B left when A succeeded; the
  timestamp is A's time when A succeeded and what B left when A failed.
\<close>

theorem last_settlement_wins:
  "preconditions apiKey cityA \<and> preconditions apiKey cityB \<longrightarrow>
   overlapped apiKey netA nowA cityA unitsA netB nowB cityB unitsB s =
     fetchWeather_settle netA nowA (fst (fetchWeather apiKey netB nowB cityB unitsB s)) \<and>
   weatherData (overlapped apiKey netA nowA cityA unitsA netB nowB cityB unitsB s) =
     (case fetch_result netA of Fulfilled w \<Rightarrow> Some w | Rejected m \<Rightarrow> None) \<and>
   loading (overlapped apiKey netA nowA cityA unitsA netB nowB cityB unitsB s) = False \<and>
   error (overlapped apiKey netA nowA cityA unitsA netB nowB cityB unitsB s) =
     (case fetch_result netA of
        Rejected m \<Rightarrow> Some m
      | Fulfilled w \<Rightarrow> error (fst (fetchWeather apiKey netB nowB cityB unitsB s))) \<and>
   lastUpdated (overlapped apiKey netA nowA cityA unitsA netB nowB cityB unitsB s) =
     (case fetch_result netA of
        Fulfilled w \<Rightarrow> Some nowA
      | Rejected m \<Rightarrow> lastUpdated (fst (fetchWeather apiKey netB nowB cityB unitsB s)))"
  by (auto simp: overlapped_accepted fetchWeather_accepted fetchWeather_settle_def
      split: settled.splits)

text \<open>
  An instance of C9 as amended: A asks for Madrid and succeeds at time 3000, B asks for
  Lima and fails at time 2000; the session ends with Madrid's data, A's timestamp and B's
  error.
\<close>

theorem last_settlement_wins_witness:
  "preconditions sample_key (js ''Madrid'') \<and> preconditions sample_key (js ''Lima'') \<and>
   weatherData (overlapped sample_key (net_ok (js ''Madrid'')) 3000 (js ''Madrid'') Metric
       net_not_found 2000 (js ''Lima'') Metric initial_session)
     = Some \<lparr>current = sample_current (js ''Madrid''), forecast = sample_forecast\<rparr> \<and>
   lastUpdated (overlapped sample_key (net_ok (js ''Madrid'')) 3000 (js ''Madrid'') Metric
       net_not_found 2000 (js ''Lima'') Metric initial_session) = Some 3000 \<and>
   error (overlapped sample_key (net_ok (js ''Madrid'')) 3000 (js ''Madrid'') Metric
       net_not_found 2000 (js ''Lima'') Metric initial_session) = Some CURRENT_FAILED_MESSAGE"
  using last_settlement_wins
    [of sample_key "js ''Madrid''" "js ''Lima''" "net_ok (js ''Madrid'')" 3000 Metric
      net_not_found 2000 Metric initial_session]
  by (simp add: preconditions_sample fetch_result_net_ok fetch_result_net_not_found
      fetchWeather_accepted fetchWeather_settle_def)

text \<open>
  Claim C9 as stated fails: A asks for Madrid, B asks for Lima, both succeed, and A
  settles after B. The committed weather data is A's, where the claim wants B's result,
  the data for Lima.
\<close>

theorem late_settlement_overwrites_newer_result:
  "weatherData (overlapped sample_key (net_ok (js ''Madrid'')) 3000 (js ''Madrid'') Metric
       (net_ok (js ''Lima'')) 2000 (js ''Lima'') Metric initial_session)
     = Some \<lparr>current = sample_current (js ''Madrid''), forecast = sample_forecast\<rparr> \<and>
   weatherData (fst (fetchWeather sample_key (net_ok (js ''Lima'')) 2000 (js ''Lima'') Metric initial_session))
     = Some \<lparr>current = sample_current (js ''Lima''), forecast = sample_forecast\<rparr> \<and>
   sample_current (js ''Madrid'') \<noteq> sample_current (js ''Lima'')"
  by (simp add: overlapped_accepted fetchWeather_accepted preconditions_sample
      fetchWeather_settle_def fetch_result_net_ok sample_current_inject)

text \<open>
  Claim C10. A call of \<open>fetchWeather\<close> whose precondition fails changes the error and
  nothing else: the weather data (currentConditions and forecastSeries), the loading flag
  and the timestamp keep their prior values, so weather data fetched before is not cleared.
\<close>

theorem refused_call_changes_error_only:
  "\<not> preconditions apiKey overrideCity \<Longrightarrow>
   fst (fetchWeather apiKey net now overrideCity overrideUnits s) =
     s\<lparr>error := error (fst (fetchWeather apiKey net now overrideCity overrideUnits s))\<rparr> \<and>
   error (fst (fetchWeather apiKey net now overrideCity overrideUnits s)) \<noteq> None \<and>
   weatherData (fst (fetchWeather apiKey net now overrideCity overrideUnits s)) = weatherData s \<and>
   currentConditions (fst (fetchWeather apiKey net now overrideCity overrideUnits s)) = currentConditions s \<and>
   forecastSeries (fst (fetchWeather apiKey net now overrideCity overrideUnits s)) = forecastSeries s \<and>
   loading (fst (fetchWeather apiKey net now overrideCity overrideUnits s)) = loading s \<and>
   lastUpdated (fst (fetchWeather apiKey net now overrideCity overrideUnits s)) = lastUpdated s"
  by (simp add: fetchWeather_refused currentConditions_def forecastSeries_def)

text \<open>
  Instances of C10: a blank city, and a missing credential, with weather data on display.
\<close>

theorem refused_call_changes_error_only_witness:
  "\<not> preconditions sample_key (js ''  '') \<and>
   fst (fetchWeather sample_key (net_ok (js ''Madrid'')) 2000 (js ''  '') Metric loaded_session) =
     loaded_session\<lparr>error := Some INVALID_CITY_MESSAGE\<rparr> \<and>
   \<not> preconditions None (js ''Madrid'') \<and>
   weatherData (fst (fetchWeather None (net_ok (js ''Madrid'')) 2000 (js ''Madrid'') Metric loaded_session)) =
     Some \<lparr>current = sample_current (js ''Madrid''), forecast = sample_forecast\<rparr>"
  using
    refused_call_changes_error_only
      [of sample_key "js ''  ''" "net_ok (js ''Madrid'')" 2000 Metric loaded_session]
    refused_call_changes_error_only
      [of None "js ''Madrid''" "net_ok (js ''Madrid'')" 2000 Metric loaded_session]
  by (simp add: preconditions_sample refused_blank_city refused_no_key loaded_session_eq)

section \<open>Properties of the forecast projector\<close>

text \<open>
  Claim C4, as amended. An absent or empty series yields the empty sequence. An entry has
  a valid date when (dt + offset) * 1000, computed in binary64, is finite and of
  magnitude at most 8.64 * 10^15; an entry whose \<open>dt\<close> is undefined has none. For a
  series whose first eight entries all have a valid date, the projector returns one point
  per entry of the first eight, in source order (exactly eight when the series has eight
  or more entries); the precipitation of every point is \<open>Math.round(pop * 100)\<close>, with
  \<open>pop\<close> taken as 0 when absent; and when \<open>pop\<close> is absent or lies in [0, 1] the
  precipitation is an integer in [0, 100], rounding to binary64 being monotone and exact
  on the integers up to \<open>2^53\<close>. For a series in which an entry among the first eight
  has no valid date, the projector throws a RangeError and returns no point.
\<close>

theorem buildForecastPoints_first_eight_in_order:
  "(fc = None \<or> (\<exists>f. fc = Some f \<and> (forecast_list f = None \<or> forecast_list f = Some [])) \<longrightarrow>
      buildForecastPoints P fc = Inr []) \<and>
   (fc = Some f \<and> forecast_list f = Some xs \<and>
    (\<forall>e\<in>set (take 8 xs). valid_time P (forecast_offset f) e) \<longrightarrow>
      (\<exists>pts. buildForecastPoints P fc = Inr pts \<and> length pts = min 8 (length xs) \<and>
         (8 \<le> length xs \<longrightarrow> length pts = 8) \<and>
         (\<forall>i<length pts.
            (\<exists>l. pts ! i = make_point P l (xs ! i)) \<and>
            precipitation (pts ! i) =
              Math_round (js_mul P (case pop (xs ! i) of None \<Rightarrow> Fin 0 | Some p \<Rightarrow> p) (Fin 100)) \<and>
            (binary64_like P \<and>
             (pop (xs ! i) = None \<or> (\<exists>p. pop (xs ! i) = Some (Fin p) \<and> 0 \<le> p \<and> p \<le> 1)) \<longrightarrow>
               (\<exists>k. precipitation (pts ! i) = Fin (of_int k) \<and> 0 \<le> k \<and> k \<le> 100))))) \<and>
   (fc = Some f \<and> forecast_list f = Some xs \<and>
    (\<exists>e\<in>set (take 8 xs). \<not> valid_time P (forecast_offset f) e) \<longrightarrow>
      buildForecastPoints P fc = Inl RangeError) \<and>
   (valid_time P tz e \<longleftrightarrow>
      (\<exists>y. js_mul P (js_add P (ToNumber (dt e)) tz) (Fin 1000) = Fin y \<and> \<bar>y\<bar> \<le> 8640000000000000)) \<and>
   (dt e = OpUndefined \<longrightarrow> \<not> valid_time P tz e)"
  by (intro conjI buildForecastPoints_empty buildForecastPoints_points
      buildForecastPoints_invalid valid_time_iff undefined_dt_invalid)

text \<open>
  Instances of C4 as amended: a series of ten entries yields eight points; the first
  has precipitation 35 (from 0.35) and the eighth 40 (from 0.4), and that of the second
  (from 1) lies in [0, 100]. A series whose third entry has no \<open>dt\<close> makes the
  projector throw.
\<close>

theorem buildForecastPoints_first_eight_in_order_witness:
  "(\<exists>pts. buildForecastPoints exact_platform (Some sample_forecast) = Inr pts \<and> length pts = 8 \<and>
     precipitation (pts ! 0) = Fin 35 \<and> precipitation (pts ! 7) = Fin 40 \<and>
     (\<exists>k. precipitation (pts ! 1) = Fin (of_int k) \<and> 0 \<le> k \<and> k \<le> 100)) \<and>
   \<not> valid_time exact_platform (forecast_offset broken_forecast) entry_without_dt \<and>
   buildForecastPoints exact_platform (Some broken_forecast) = Inl RangeError"
proof -
  note thm1 = buildForecastPoints_first_eight_in_order
    [where fc = "Some sample_forecast" and P = exact_platform and f = sample_forecast
      and xs = ten_entries]
  note thm2 = buildForecastPoints_first_eight_in_order
    [where fc = "Some broken_forecast" and P = exact_platform and f = broken_forecast
      and xs = "the (forecast_list broken_forecast)" and e = entry_without_dt
      and tz = "forecast_offset broken_forecast"]
  have off: "forecast_offset sample_forecast = Fin 7200"
    by (simp add: forecast_offset_def sample_forecast_def)
  have v: "\<forall>e\<in>set (take 8 ten_entries). valid_time exact_platform (forecast_offset sample_forecast) e"
    by (simp add: off ten_entries_def valid_sample_entry)
  have series: "forecast_list sample_forecast = Some ten_entries"
    by (simp add: sample_forecast_def)
  have len: "length ten_entries = 10" by (simp add: ten_entries_def)
  have p0: "pop (ten_entries ! 0) = Some (Fin 0.35)"
    and p1: "pop (ten_entries ! 1) = Some (Fin 1)"
    and p7: "pop (ten_entries ! 7) = Some (Fin 0.4)"
    by (simp_all add: ten_entries_def sample_entry_def)
  from series v have
    "Some sample_forecast = Some sample_forecast \<and> forecast_list sample_forecast = Some ten_entries \<and>
     (\<forall>e\<in>set (take 8 ten_entries). valid_time exact_platform (forecast_offset sample_forecast) e)"
    by blast
  from thm1 [THEN conjunct2, THEN conjunct1, THEN mp, OF this]
  obtain pts where b: "buildForecastPoints exact_platform (Some sample_forecast) = Inr pts"
    and l: "length pts = min 8 (length ten_entries)"
    and each: "\<And>i. i < length pts \<Longrightarrow>
        precipitation (pts ! i) =
          Math_round (js_mul exact_platform
            (case pop (ten_entries ! i) of None \<Rightarrow> Fin 0 | Some p \<Rightarrow> p) (Fin 100)) \<and>
        (binary64_like exact_platform \<and>
         (pop (ten_entries ! i) = None \<or>
          (\<exists>p. pop (ten_entries ! i) = Some (Fin p) \<and> 0 \<le> p \<and> p \<le> 1)) \<longrightarrow>
           (\<exists>k. precipitation (pts ! i) = Fin (of_int k) \<and> 0 \<le> k \<and> k \<le> 100))"
    by blast
  from l len have l8: "length pts = 8" by simp
  from each [of 0] l8 p0 have "precipitation (pts ! 0) = Fin 35"
    by (simp add: exact_platform_def)
  moreover from each [of 7] l8 p7 have "precipitation (pts ! 7) = Fin 40"
    by (simp add: exact_platform_def)
  moreover have "\<exists>k. precipitation (pts ! 1) = Fin (of_int k) \<and> 0 \<le> k \<and> k \<le> 100"
  proof -
    from l8 have i1: "1 < length pts" by simp
    from p1 have "pop (ten_entries ! 1) = None \<or>
        (\<exists>p. pop (ten_entries ! 1) = Some (Fin p) \<and> 0 \<le> p \<and> p \<le> 1)"
      by simp
    with each [OF i1] binary64_like_exact show ?thesis by blast
  qed
  ultimately have first: "\<exists>pts. buildForecastPoints exact_platform (Some sample_forecast) = Inr pts \<and>
     length pts = 8 \<and> precipitation (pts ! 0) = Fin 35 \<and> precipitation (pts ! 7) = Fin 40 \<and>
     (\<exists>k. precipitation (pts ! 1) = Fin (of_int k) \<and> 0 \<le> k \<and> k \<le> 100)"
    using b l8 by blast
  have u: "dt entry_without_dt = OpUndefined" by (simp add: entry_without_dt_def)
  from thm2 [THEN conjunct2, THEN conjunct2, THEN conjunct2, THEN conjunct2, THEN mp, OF u]
  have inv: "\<not> valid_time exact_platform (forecast_offset broken_forecast) entry_without_dt" .
  have "entry_without_dt \<in> set (take 8 (the (forecast_list broken_forecast)))"
    by (simp add: broken_forecast_def)
  with inv have
    "Some broken_forecast = Some broken_forecast \<and>
     forecast_list broken_forecast = Some (the (forecast_list broken_forecast)) \<and>
     (\<exists>e\<in>set (take 8 (the (forecast_list broken_forecast))).
        \<not> valid_time exact_platform (forecast_offset broken_forecast) e)"
    by (auto simp: broken_forecast_def)
  from thm2 [THEN conjunct2, THEN conjunct2, THEN conjunct1, THEN mp, OF this]
  have "buildForecastPoints exact_platform (Some broken_forecast) = Inl RangeError" .
  with first inv show ?thesis by blast
qed

text \<open>
  Claim C4 as stated fails for a series of eight entries of which the third has no
  \<open>dt\<close> (it is undefined): its date is invalid, formatting the label throws, and no
  point is returned.
\<close>

theorem buildForecastPoints_throws_without_timestamp:
  "buildForecastPoints exact_platform (Some broken_forecast) = Inl RangeError"
proof -
  obtain y1 where y1: "forecast_item exact_platform (Fin 7200) (sample_entry 1700000000 0.35) = Inr y1"
    using forecast_item_sample [of 1700000000 "0.35"] by auto
  obtain y2 where y2: "forecast_item exact_platform (Fin 7200) (sample_entry 1700010800 1) = Inr y2"
    using forecast_item_sample [of 1700010800 1] by auto
  have "\<not> valid_time exact_platform (Fin 7200) entry_without_dt"
    by (simp add: valid_time_def entry_without_dt_def new_Date_def)
  then have y3: "forecast_item exact_platform (Fin 7200) entry_without_dt = Inl RangeError"
    by (rule forecast_item_invalid)
  from y1 y2 y3 show ?thesis
    by (simp add: buildForecastPoints_def broken_forecast_def forecast_offset_def Let_def)
qed

section \<open>Properties of the formatters\<close>

text \<open>
  Claim C5, as amended. The three formatters never throw. A value whose \<open>typeof\<close> is
  not \<open>'number'\<close> (undefined, null, a boolean, a string, an object) yields the
  placeholder. For a finite number, \<open>formatTemperature\<close> prints the nearest integer (the
  larger one on a tie), converted to text as JavaScript converts a number (its plain
  decimal digits when its magnitude is at most \<open>2^53\<close>), followed by the unit glyph;
  \<open>formatWindSpeed\<close> prints one decimal, a space and the unit label when the magnitude
  is below \<open>10^21\<close>; \<open>formatVisibility\<close> prints the binary64 quotient of the value by
  1000 with one decimal, followed by \<open>km\<close>, when the magnitude of the quotient is below
  \<open>10^21\<close>. From \<open>10^21\<close> on, \<open>formatWindSpeed\<close> and \<open>formatVisibility\<close> print the
  sign and the default conversion of the magnitude to text. NaN and the infinities are of
  type number and are printed by name, followed by the unit.
\<close>

theorem formatters_total_and_precise:
  "(\<exists>a b c. formatTemperature P v u = Inr a \<and> formatWindSpeed P v u = Inr b \<and>
            formatVisibility P v = Inr c) \<and>
   (typeof v \<noteq> js ''number'' \<longrightarrow>
      formatTemperature P v u = Inr (js ''--'') \<and> formatWindSpeed P v u = Inr (js ''--'') \<and>
      formatVisibility P v = Inr (js ''--'')) \<and>
   (v = Number (Fin x) \<longrightarrow>
      formatTemperature P v u = Inr (ToString P (Fin (of_int \<lfloor>x + 1 / 2\<rfloor>)) @ TEMPERATURE_UNIT u)) \<and>
   (v = Number (Fin x) \<and> \<bar>\<lfloor>x + 1 / 2\<rfloor>\<bar> \<le> 2 ^ 53 \<longrightarrow>
      formatTemperature P v u = Inr (nearest_integer_text x @ TEMPERATURE_UNIT u)) \<and>
   (v = Number (Fin x) \<and> \<bar>x\<bar> < 10 ^ 21 \<longrightarrow>
      formatWindSpeed P v u = Inr (one_decimal x @ js '' '' @ WIND_UNIT u)) \<and>
   (v = Number (Fin x) \<and> 10 ^ 21 \<le> \<bar>x\<bar> \<longrightarrow>
      formatWindSpeed P v u =
        Inr ((if x < 0 then js ''-'' else []) @ num_text P \<bar>x\<bar> @ js '' '' @ WIND_UNIT u)) \<and>
   (v = Number (Fin x) \<and> fl P (x / 1000) = Fin y \<and> \<bar>y\<bar> < 10 ^ 21 \<longrightarrow>
      formatVisibility P v = Inr (one_decimal y @ js '' km'')) \<and>
   (v = Number (Fin x) \<and> fl P (x / 1000) = Fin y \<and> 10 ^ 21 \<le> \<bar>y\<bar> \<longrightarrow>
      formatVisibility P v = Inr ((if y < 0 then js ''-'' else []) @ num_text P \<bar>y\<bar> @ js '' km'')) \<and>
   formatTemperature P (Number NaN) u = Inr (js ''NaN'' @ TEMPERATURE_UNIT u) \<and>
   formatTemperature P (Number PosInf) u = Inr (js ''Infinity'' @ TEMPERATURE_UNIT u) \<and>
   formatTemperature P (Number NegInf) u = Inr (js ''-Infinity'' @ TEMPERATURE_UNIT u) \<and>
   formatWindSpeed P (Number NaN) u = Inr (js ''NaN'' @ js '' '' @ WIND_UNIT u) \<and>
   formatWindSpeed P (Number PosInf) u = Inr (js ''Infinity'' @ js '' '' @ WIND_UNIT u) \<and>
   formatWindSpeed P (Number NegInf) u = Inr (js ''-Infinity'' @ js '' '' @ WIND_UNIT u) \<and>
   formatVisibility P (Number NaN) = Inr (js ''NaN'' @ js '' km'') \<and>
   formatVisibility P (Number PosInf) = Inr (js ''Infinity'' @ js '' km'') \<and>
   formatVisibility P (Number NegInf) = Inr (js ''-Infinity'' @ js '' km'')"
  by (intro conjI formatters_total formatters_placeholder formatTemperature_number
      formatTemperature_finite formatWindSpeed_finite formatWindSpeed_large
      formatVisibility_finite formatVisibility_large formatters_by_name)

text \<open>
  Instances of C5 as amended: 21.6 in metric units is printed as 22 with the degree sign
  and C; as a wind speed it is 21.6 m/s; as a visibility in metres it is 0.0 km;
  undefined gives the placeholder; a wind speed of \<open>10^21\<close> is printed with an
  exponent, and so is a temperature of \<open>2^70\<close>.
\<close>

theorem formatters_total_and_precise_witness:
  "formatTemperature exact_platform (Number (Fin 21.6)) Metric = Inr (js ''22'' @ [0xB0] @ js ''C'') \<and>
   formatWindSpeed exact_platform (Number (Fin 21.6)) Metric = Inr (js ''21.6 m/s'') \<and>
   formatVisibility exact_platform (Number (Fin 21.6)) = Inr (js ''0.0 km'') \<and>
   formatTemperature exact_platform Undefined Metric = Inr (js ''--'') \<and>
   formatWindSpeed exact_platform (Number (Fin (10 ^ 21))) Imperial = Inr (js ''1e+21 mph'') \<and>
   formatTemperature exact_platform (Number (Fin (2 ^ 70))) Metric
     = Inr (js ''1.1805916207174113e+21'' @ [0xB0] @ js ''C'')"
proof -
  note warm = formatters_total_and_precise
    [of exact_platform "Number (Fin (2 ^ 70))" Metric "2 ^ 70" "2 ^ 70 / 1000"]
  note small = formatters_total_and_precise
    [of exact_platform "Number (Fin 21.6)" Metric "21.6" "0.0216"]
  note absent = formatters_total_and_precise [of exact_platform Undefined Metric 0 0]
  note large = formatters_total_and_precise
    [of exact_platform "Number (Fin (10 ^ 21))" Imperial "10 ^ 21" "10 ^ 18"]
  from small absent have
    "formatTemperature exact_platform (Number (Fin 21.6)) Metric = Inr (js ''22'' @ [0xB0] @ js ''C'') \<and>
     formatWindSpeed exact_platform (Number (Fin 21.6)) Metric = Inr (js ''21.6 m/s'') \<and>
     formatVisibility exact_platform (Number (Fin 21.6)) = Inr (js ''0.0 km'') \<and>
     formatTemperature exact_platform Undefined Metric = Inr (js ''--'')"
    by (simp add: exact_platform_def nearest_integer_text_def one_decimal_def dec.simps js_def)
  moreover from large have
    "formatWindSpeed exact_platform (Number (Fin (10 ^ 21))) Imperial = Inr (js ''1e+21 mph'')"
    by (simp add: exact_platform_def sample_num_text_def js_def)
  moreover from warm have
    "formatTemperature exact_platform (Number (Fin (2 ^ 70))) Metric
       = Inr (js ''1.1805916207174113e+21'' @ [0xB0] @ js ''C'')"
    by (simp add: exact_platform_def sample_num_text_def js_def)
  ultimately show ?thesis by blast
qed

text \<open>
  Claim C5 as stated fails at NaN and at an infinity: both have type number, so the
  placeholder is not returned, and what is printed is neither a rounded integer nor a
  number with one decimal. It also fails from \<open>10^21\<close> on: a wind speed of \<open>10^21\<close>
  and a visibility of \<open>1000 * 2^70\<close>, whose quotient by 1000 is \<open>2^70\<close>, are printed
  with an exponent and not with one decimal.
\<close>

theorem formatters_print_NaN_and_Infinity:
  "formatTemperature exact_platform (Number NaN) Metric = Inr (js ''NaN'' @ [0xB0] @ js ''C'') \<and>
   formatTemperature exact_platform (Number NaN) Metric \<noteq> Inr (js ''--'') \<and>
   formatWindSpeed exact_platform (Number PosInf) Metric = Inr (js ''Infinity m/s'') \<and>
   formatWindSpeed exact_platform (Number (Fin (10 ^ 21))) Metric = Inr (js ''1e+21 m/s'') \<and>
   formatVisibility exact_platform (Number (Fin (1000 * 2 ^ 70)))
     = Inr (js ''1.1805916207174113e+21 km'')"
proof -
  have w: "toFixed exact_platform (Suc 0) (Fin (10 ^ 21)) = Inr (js ''1e+21'')"
    using toFixed_large [of "10 ^ 21" exact_platform]
    by (simp add: exact_platform_def sample_num_text_def)
  have q: "js_div exact_platform (Fin (1000 * 2 ^ 70)) (Fin 1000) = Fin (2 ^ 70)"
    by (simp add: exact_platform_def)
  have k: "toFixed exact_platform (Suc 0) (Fin (2 ^ 70)) = Inr (js ''1.1805916207174113e+21'')"
    using toFixed_large [of "2 ^ 70" exact_platform]
    by (simp add: exact_platform_def sample_num_text_def)
  from w have "formatWindSpeed exact_platform (Number (Fin (10 ^ 21))) Metric
      = Inr (js ''1e+21 m/s'')"
    by (simp add: formatWindSpeed_def js_def)
  moreover from q k have "formatVisibility exact_platform (Number (Fin (1000 * 2 ^ 70)))
      = Inr (js ''1.1805916207174113e+21 km'')"
    by (simp add: formatVisibility_def js_def)
  moreover have "formatTemperature exact_platform (Number NaN) Metric
        = Inr (js ''NaN'' @ [0xB0] @ js ''C'') \<and>
      formatTemperature exact_platform (Number NaN) Metric \<noteq> Inr (js ''--'') \<and>
      formatWindSpeed exact_platform (Number PosInf) Metric = Inr (js ''Infinity m/s'')"
    by (simp add: formatTemperature_def formatWindSpeed_def toFixed_def js_def)
  ultimately show ?thesis by blast
qed

text \<open>
  Claim C6, as amended. For every timestamp and offset: \<open>formatSunEvent\<close> returns the
  placeholder when the timestamp is falsy (undefined, null, NaN or 0). Otherwise it
  computes (timestamp + offset) * 1000 in binary64. When the result is finite and of
  magnitude at most 8.64 * 10^15, it returns the 24-hour HH:MM clock time, in UTC, of the
  epoch second in which that many milliseconds fall, a fraction of a millisecond being
  cut off towards zero; for an integer timestamp and an integer offset this is the clock
  time of (timestamp + offset) epoch seconds. When the result is NaN, infinite or beyond
  that magnitude, it returns the text \<open>Invalid Date\<close>. In particular
  \<open>formatSunEvent(1700000000, 7200)\<close> is the UTC clock time of 1700007200, which is
  00:13. The result does not depend on the time zone of the host.
\<close>

theorem formatSunEvent_is_utc_clock:
  "(ts = None \<or> ts = Some NaN \<or> ts = Some (Fin 0) \<longrightarrow> formatSunEvent P ts tz = js ''--'') \<and>
   (\<not> falsy_num x \<and> js_mul P (js_add P x tz) (Fin 1000) = Fin y \<and> \<bar>y\<bar> \<le> 8640000000000000 \<longrightarrow>
      formatSunEvent P (Some x) tz = utc_clock ((if 0 \<le> y then \<lfloor>y\<rfloor> else \<lceil>y\<rceil>) div 1000)) \<and>
   (\<not> falsy_num x \<and>
    (\<forall>y. js_mul P (js_add P x tz) (Fin 1000) = Fin y \<longrightarrow> 8640000000000000 < \<bar>y\<bar>) \<longrightarrow>
      formatSunEvent P (Some x) tz = js ''Invalid Date'') \<and>
   (binary64_like P \<and> t \<noteq> 0 \<and> \<bar>t + off\<bar> * 1000 \<le> 8640000000000000 \<longrightarrow>
      formatSunEvent P (Some (Fin (of_int t))) (Fin (of_int off)) = utc_clock (t + off)) \<and>
   (binary64_like P \<longrightarrow>
      formatSunEvent P (Some (Fin 1700000000)) (Fin 7200) = utc_clock 1700007200) \<and>
   utc_clock 1700007200 = js ''00:13'' \<and>
   formatSunEvent (P\<lparr>local_offset := z\<rparr>) ts tz = formatSunEvent P ts tz"
  by (intro conjI formatSunEvent_falsy formatSunEvent_valid formatSunEvent_invalid
      formatSunEvent_in_range formatSunEvent_sample utc_clock_sample formatSunEvent_host)

text \<open>
  Instances of C6 as amended: the example of the specification, a timestamp of 0, a
  negative offset, a timestamp with half a second, and a timestamp beyond the range of
  dates.
\<close>

theorem formatSunEvent_is_utc_clock_witness:
  "binary64_like exact_platform \<and>
   formatSunEvent exact_platform (Some (Fin 1700000000)) (Fin 7200) = js ''00:13'' \<and>
   formatSunEvent exact_platform (Some (Fin 0)) (Fin 7200) = js ''--'' \<and>
   formatSunEvent exact_platform (Some (Fin 1700003600)) (Fin (- 18000)) = utc_clock 1699985600 \<and>
   formatSunEvent exact_platform (Some (Fin 1700000000.5)) (Fin 7200) = utc_clock 1700007200 \<and>
   formatSunEvent exact_platform (Some (Fin 10000000000000)) (Fin 7200) = js ''Invalid Date''"
proof -
  note half = formatSunEvent_is_utc_clock
    [where ts = "Some (Fin 0)" and P = exact_platform and tz = "Fin 7200"
      and x = "Fin 1700000000.5" and y = 1700007200500
      and t = 1700003600 and off = "- 18000" and z = "\<lambda>t. 0"]
  note far = formatSunEvent_is_utc_clock
    [where ts = "Some (Fin 0)" and P = exact_platform and tz = "Fin 7200"
      and x = "Fin 10000000000000" and y = 0
      and t = 1700003600 and off = "- 18000" and z = "\<lambda>t. 0"]
  note like = binary64_like_exact
  from half [THEN conjunct1] have zero: "formatSunEvent exact_platform (Some (Fin 0)) (Fin 7200) = js ''--''"
    by simp
  from half [THEN conjunct2, THEN conjunct2, THEN conjunct2, THEN conjunct2, THEN conjunct1] like
  have "formatSunEvent exact_platform (Some (Fin 1700000000)) (Fin 7200) = utc_clock 1700007200"
    by (rule mp)
  with half [THEN conjunct2, THEN conjunct2, THEN conjunct2, THEN conjunct2, THEN conjunct2,
      THEN conjunct1]
  have sample: "formatSunEvent exact_platform (Some (Fin 1700000000)) (Fin 7200) = js ''00:13''"
    by simp
  have "binary64_like exact_platform \<and> (1700003600::int) \<noteq> 0 \<and>
      \<bar>1700003600 + (- 18000 :: int)\<bar> * 1000 \<le> 8640000000000000"
    using like by simp
  with half [THEN conjunct2, THEN conjunct2, THEN conjunct2, THEN conjunct1]
  have "formatSunEvent exact_platform (Some (Fin (of_int 1700003600))) (Fin (of_int (- 18000)))
      = utc_clock (1700003600 + (- 18000))"
    by (rule mp)
  then have west: "formatSunEvent exact_platform (Some (Fin 1700003600)) (Fin (- 18000))
      = utc_clock 1699985600"
    by simp
  have m1: "js_mul exact_platform (js_add exact_platform (Fin 1700000000.5) (Fin 7200)) (Fin 1000)
      = Fin 1700007200500"
    by (simp add: exact_platform_def)
  have "\<not> falsy_num (Fin 1700000000.5) \<and>
      js_mul exact_platform (js_add exact_platform (Fin 1700000000.5) (Fin 7200)) (Fin 1000)
        = Fin 1700007200500 \<and>
      \<bar>1700007200500 :: real\<bar> \<le> 8640000000000000"
    using m1 by (simp add: falsy_num_def)
  with half [THEN conjunct2, THEN conjunct1]
  have "formatSunEvent exact_platform (Some (Fin 1700000000.5)) (Fin 7200)
      = utc_clock ((if 0 \<le> (1700007200500 :: real) then \<lfloor>1700007200500 :: real\<rfloor>
          else \<lceil>1700007200500 :: real\<rceil>) div 1000)"
    by (rule mp)
  then have halfsec: "formatSunEvent exact_platform (Some (Fin 1700000000.5)) (Fin 7200)
      = utc_clock 1700007200"
    by simp
  have m2: "js_mul exact_platform (js_add exact_platform (Fin 10000000000000) (Fin 7200)) (Fin 1000)
      = Fin 10000000007200000"
    by (simp add: exact_platform_def)
  have "\<not> falsy_num (Fin 10000000000000) \<and>
      (\<forall>y. js_mul exact_platform (js_add exact_platform (Fin 10000000000000) (Fin 7200)) (Fin 1000)
          = Fin y \<longrightarrow> 8640000000000000 < \<bar>y\<bar>)"
    using m2 by (auto simp: falsy_num_def)
  with far [THEN conjunct2, THEN conjunct2, THEN conjunct1]
  have beyond: "formatSunEvent exact_platform (Some (Fin 10000000000000)) (Fin 7200)
      = js ''Invalid Date''"
    by (rule mp)
  from like sample zero west halfsec beyond show ?thesis by (intro conjI)
qed

text \<open>
  Claim C6 as stated fails twice. \<open>formatSunEvent(1700000000, 7200)\<close> is 00:13, while
  the UTC clock time of 1700002200, which the claim names, is 22:50. And a timestamp
  beyond the range of dates gives the text \<open>Invalid Date\<close> instead of a clock time.
\<close>

theorem formatSunEvent_sample_is_not_2250:
  "formatSunEvent exact_platform (Some (Fin 1700000000)) (Fin 7200) = js ''00:13'' \<and>
   utc_clock 1700002200 = js ''22:50'' \<and>
   formatSunEvent exact_platform (Some (Fin 10000000000000)) (Fin 0) = js ''Invalid Date''"
  by (simp add: formatSunEvent_def falsy_num_def exact_platform_def new_Date_def
      toLocaleTimeString_def zoned_def hour_of_def minute_of_def utc_clock_def pad2_def
      dec.simps js_def)

end
